theory Spec2Isabelle
  imports Main "HOL-Library.Sublist"
begin

section \<open>The Java model visitor of the AppSync codegen plugin\<close>

text \<open>
  A shallow embedding of \<^verbatim>\<open>AppSyncModelJavaVisitor\<close>
  (\<^verbatim>\<open>appsync-java-visitor.ts\<close>).  The visitor turns schema models into Java source text:
  it fills declaration blocks with members, methods and nested blocks.  The only state it
  mutates is the set \<^verbatim>\<open>additionalPackages\<close>; the only faults are the \<^verbatim>\<open>TypeError\<close>s
  JavaScript raises on a property read of \<^verbatim>\<open>undefined\<close>.  The dispatch \<^verbatim>\<open>generate\<close> and the
  enum emitter \<^verbatim>\<open>generateEnums\<close> are left out: they rest on members of the parent class
  only, and no property below is about them.
\<close>

subsection \<open>JavaScript strings and arrays\<close>

definition nl :: string where
  "nl = [CHR 0x0A]"

text \<open>\<^verbatim>\<open>Array.prototype.join\<close>.\<close>

fun join :: "string \<Rightarrow> string list \<Rightarrow> string" where
  "join sep [] = []"
| "join sep [x] = x"
| "join sep (x # y # ys) = x @ sep @ join sep (y # ys)"

text \<open>\<^verbatim>\<open>String.prototype.split\<close> with a one-character separator: never the empty array.\<close>

fun splitOn :: "char \<Rightarrow> string \<Rightarrow> string list" where
  "splitOn c [] = [[]]"
| "splitOn c (x # xs) =
     (if x = c then [] # splitOn c xs
      else (case splitOn c xs of [] \<Rightarrow> [[x]] | y # ys \<Rightarrow> (x # y) # ys))"

text \<open>An array read \<^verbatim>\<open>xs[i]\<close>: \<^verbatim>\<open>undefined\<close> out of range.\<close>

definition at :: "'a list \<Rightarrow> nat \<Rightarrow> 'a option" where
  "at xs i = (if i < length xs then Some (xs ! i) else None)"

text \<open>The white space \<^verbatim>\<open>trimStart\<close> and \<^verbatim>\<open>trimLeft\<close> remove (the ASCII part).\<close>

definition isWhiteSpace :: "char \<Rightarrow> bool" where
  "isWhiteSpace c = (c = CHR '' '' \<or> c = CHR 0x09 \<or> c = CHR 0x0A \<or> c = CHR 0x0B
     \<or> c = CHR 0x0C \<or> c = CHR 0x0D)"

definition trimStart :: "string \<Rightarrow> string" where
  "trimStart s = dropWhile isWhiteSpace s"

text \<open>A \<^verbatim>\<open>Set\<close> of strings keeps insertion order and holds a string once.\<close>

definition setAdd :: "string \<Rightarrow> string list \<Rightarrow> string list" where
  "setAdd x xs = (if x \<in> set xs then xs else xs @ [x])"

subsection \<open>The schema model\<close>

text \<open>
  A directive argument (\<^verbatim>\<open>arguments\<close>, a record from string to any value): a scalar, a string
  or a list of strings.  A key that is absent reads as \<^verbatim>\<open>undefined\<close>, here \<open>None\<close>.
\<close>

datatype jsval = JSStr string | JSNum int | JSBool bool | JSNull | JSArr "string list"

record CodeGenDirective =
  d_name :: string
  d_arguments :: "(string \<times> jsval) list"

record CodeGenField =
  f_name :: string
  f_type :: string
  f_isNullable :: bool
  f_directives :: "CodeGenDirective list"

record CodeGenModel =
  m_name :: string
  m_fields :: "CodeGenField list"
  m_directives :: "CodeGenDirective list"

datatype error = TypeError string

text \<open>Decimal digits of a number, for a number inside a template literal.\<close>

fun natToString :: "nat \<Rightarrow> string" where
  "natToString n =
     (if n < 10 then [''0123456789'' ! n]
      else natToString (n div 10) @ [''0123456789'' ! (n mod 10)])"

definition intToString :: "int \<Rightarrow> string" where
  "intToString i = (if i < 0 then ''-'' @ natToString (nat (- i)) else natToString (nat i))"

text \<open>\<^verbatim>\<open>`${v}`\<close>: the string a value becomes inside a template literal.\<close>

fun toTemplateString :: "jsval option \<Rightarrow> string" where
  "toTemplateString None = ''undefined''"
| "toTemplateString (Some (JSStr s)) = s"
| "toTemplateString (Some (JSNum n)) = intToString n"
| "toTemplateString (Some (JSBool b)) = (if b then ''true'' else ''false'')"
| "toTemplateString (Some JSNull) = ''null''"
| "toTemplateString (Some (JSArr xs)) = join '','' xs"

text \<open>Truthiness, as an \<^verbatim>\<open>if (v)\<close> tests it.\<close>

fun truthy :: "jsval option \<Rightarrow> bool" where
  "truthy None = False"
| "truthy (Some (JSStr s)) = (s \<noteq> [])"
| "truthy (Some (JSNum n)) = (n \<noteq> 0)"
| "truthy (Some (JSBool b)) = b"
| "truthy (Some JSNull) = False"
| "truthy (Some (JSArr xs)) = True"

fun isArray :: "jsval option \<Rightarrow> bool" where
  "isArray (Some (JSArr xs)) = True"
| "isArray _ = False"

subsection \<open>Declaration blocks\<close>

text \<open>
  Modelled from the spec: \<^verbatim>\<open>JavaDeclarationBlock\<close> (\<^verbatim>\<open>../languages/java-declaration-block\<close>)
  is not among the sources.  It is the Declaration Builder of the system overview, "a
  generic, language-shape-aware buffer that accumulates members, methods, nested types,
  annotations, and comments".  A block here records what each call of the visitor hands
  it, in call order; an \<^verbatim>\<open>undefined\<close> or \<^verbatim>\<open>null\<close> argument is \<open>None\<close>, a flags object is
  the list of the flags it sets, and trailing arguments a call leaves out are empty.  How
  a block prints (\<^verbatim>\<open>.string\<close>) is left to the collaborator record below.
\<close>

record ClassMember =
  cm_name :: string
  cm_type :: string
  cm_value :: string
  cm_typeAnnotations :: "string list option"
  cm_access :: string
  cm_flags :: "string list"

record ClassMethod =
  mt_name :: string
  mt_returnType :: "string option"
  mt_implementation :: string
  mt_args :: "(string \<times> string) list option"
  mt_argAnnotations :: "string list option"
  mt_access :: string
  mt_flags :: "string list"
  mt_annotations :: "string list"
  mt_exceptions :: "string list"
  mt_comment :: "string option"

datatype JavaDeclarationBlock = JavaDeclarationBlock
  (b_kind: "string option")
  (b_name: "string option")
  (b_access: "string option")
  (b_final: bool)
  (b_static: bool)
  (b_implements: "string list")
  (b_annotations: "string list")
  (b_comment: "string option")
  (b_block: "string option")
  (b_members: "ClassMember list")
  (b_methods: "ClassMethod list")
  (b_nested: "JavaDeclarationBlock list")

definition newBlock :: JavaDeclarationBlock where
  "newBlock = JavaDeclarationBlock None None None False False [] [] None None [] [] []"

fun asKind :: "string \<Rightarrow> JavaDeclarationBlock \<Rightarrow> JavaDeclarationBlock" where
  "asKind k (JavaDeclarationBlock _ n a f s i an c b ms mts ns) =
     JavaDeclarationBlock (Some k) n a f s i an c b ms mts ns"

fun withName :: "string \<Rightarrow> JavaDeclarationBlock \<Rightarrow> JavaDeclarationBlock" where
  "withName n (JavaDeclarationBlock k _ a f s i an c b ms mts ns) =
     JavaDeclarationBlock k (Some n) a f s i an c b ms mts ns"

fun access :: "string \<Rightarrow> JavaDeclarationBlock \<Rightarrow> JavaDeclarationBlock" where
  "access a (JavaDeclarationBlock k n _ f s i an c b ms mts ns) =
     JavaDeclarationBlock k n (Some a) f s i an c b ms mts ns"

fun final :: "JavaDeclarationBlock \<Rightarrow> JavaDeclarationBlock" where
  "final (JavaDeclarationBlock k n a _ s i an c b ms mts ns) =
     JavaDeclarationBlock k n a True s i an c b ms mts ns"

fun static :: "JavaDeclarationBlock \<Rightarrow> JavaDeclarationBlock" where
  "static (JavaDeclarationBlock k n a f _ i an c b ms mts ns) =
     JavaDeclarationBlock k n a f True i an c b ms mts ns"

fun implements :: "string list \<Rightarrow> JavaDeclarationBlock \<Rightarrow> JavaDeclarationBlock" where
  "implements i (JavaDeclarationBlock k n a f s _ an c b ms mts ns) =
     JavaDeclarationBlock k n a f s i an c b ms mts ns"

fun annotate :: "string list \<Rightarrow> JavaDeclarationBlock \<Rightarrow> JavaDeclarationBlock" where
  "annotate an (JavaDeclarationBlock k n a f s i _ c b ms mts ns) =
     JavaDeclarationBlock k n a f s i an c b ms mts ns"

fun withComment :: "string \<Rightarrow> JavaDeclarationBlock \<Rightarrow> JavaDeclarationBlock" where
  "withComment c (JavaDeclarationBlock k n a f s i an _ b ms mts ns) =
     JavaDeclarationBlock k n a f s i an (Some c) b ms mts ns"

fun withBlock :: "string \<Rightarrow> JavaDeclarationBlock \<Rightarrow> JavaDeclarationBlock" where
  "withBlock b (JavaDeclarationBlock k n a f s i an c _ ms mts ns) =
     JavaDeclarationBlock k n a f s i an c (Some b) ms mts ns"

fun addClassMember ::
  "string \<Rightarrow> string \<Rightarrow> string \<Rightarrow> string list option \<Rightarrow> string \<Rightarrow> string list \<Rightarrow>
   JavaDeclarationBlock \<Rightarrow> JavaDeclarationBlock" where
  "addClassMember name type val typeAnnotations acc flags
     (JavaDeclarationBlock k n a f s i an c b ms mts ns) =
     JavaDeclarationBlock k n a f s i an c b
       (ms @ [\<lparr>cm_name = name, cm_type = type, cm_value = val,
               cm_typeAnnotations = typeAnnotations, cm_access = acc, cm_flags = flags\<rparr>])
       mts ns"

fun addClassMethod :: "ClassMethod \<Rightarrow> JavaDeclarationBlock \<Rightarrow> JavaDeclarationBlock" where
  "addClassMethod mt (JavaDeclarationBlock k n a f s i an c b ms mts ns) =
     JavaDeclarationBlock k n a f s i an c b ms (mts @ [mt]) ns"

fun nestedClass :: "JavaDeclarationBlock \<Rightarrow> JavaDeclarationBlock \<Rightarrow> JavaDeclarationBlock" where
  "nestedClass nstd (JavaDeclarationBlock k n a f s i an c b ms mts ns) =
     JavaDeclarationBlock k n a f s i an c b ms mts (ns @ [nstd])"

text \<open>The ten positional arguments of \<^verbatim>\<open>addClassMethod\<close>, in the order the visitor passes them.\<close>

definition classMethod ::
  "string \<Rightarrow> string option \<Rightarrow> string \<Rightarrow> (string \<times> string) list option \<Rightarrow> string list option \<Rightarrow>
   string \<Rightarrow> string list \<Rightarrow> string list \<Rightarrow> string list \<Rightarrow> string option \<Rightarrow> ClassMethod" where
  "classMethod name returnType impl args argAnnotations acc flags annotations exceptions cmt =
     \<lparr>mt_name = name, mt_returnType = returnType, mt_implementation = impl, mt_args = args,
      mt_argAnnotations = argAnnotations, mt_access = acc, mt_flags = flags,
      mt_annotations = annotations, mt_exceptions = exceptions, mt_comment = cmt\<rparr>"

subsection \<open>The visitor and its collaborators\<close>

text \<open>
  What the visitor reads and the set it mutates.  Modelled from the spec: \<^verbatim>\<open>typeMap\<close> and
  \<^verbatim>\<open>getSelectedModels\<close> are inherited from \<^verbatim>\<open>AppSyncModelVisitor\<close> (\<^verbatim>\<open>./appsync-visitor\<close>),
  which is not among the sources.  The external interfaces give "an ordered mapping from
  model name to Model" and "a selector for which models/enums are in scope for this
  pass": the selected models are the entries of the type map the selector keeps, in the
  type map's order.
\<close>

record visitor =
  typeMap :: "(string \<times> CodeGenModel) list"
  selector :: "string \<Rightarrow> bool"
  additionalPackages :: "string list"

definition getSelectedModels :: "visitor \<Rightarrow> (string \<times> CodeGenModel) list" where
  "getSelectedModels v = filter (\<lambda>(name, model). selector v name) (typeMap v)"

text \<open>
  Modelled from the spec: \<^verbatim>\<open>READ_ONLY_FIELDS\<close> is a member of the parent visitor class, not
  among the sources; step 2 of the step-builder algorithm excludes from the required fields
  "any field whose name matches the identity field convention ("id")".
\<close>

definition READ_ONLY_FIELDS :: "string list" where
  "READ_ONLY_FIELDS = [''id'']"

text \<open>
  The functions and constants the visitor imports or inherits and that are not among the
  sources, taken as parameters: the case conversions of \<^verbatim>\<open>change-case\<close>, the text helpers
  of \<^verbatim>\<open>visitor-plugin-common\<close> and \<^verbatim>\<open>ts-dedent\<close>, the parent visitor's name and type
  mappers and its version hash, the printer of a declaration block, and the constants of
  \<^verbatim>\<open>../configs/java-config\<close>.  \<^verbatim>\<open>indentMultiline\<close> takes its optional count (1 when left out).
\<close>

record collaborators =
  pascalCase :: "string \<Rightarrow> string"
  camelCase :: "string \<Rightarrow> string"
  constantCase :: "string \<Rightarrow> string"
  indent :: "string \<Rightarrow> string"
  indentMultiline :: "string \<Rightarrow> nat \<Rightarrow> string"
  transformComment :: "string \<Rightarrow> string"
  dedent :: "string \<Rightarrow> string"
  getFieldName :: "CodeGenField \<Rightarrow> string"
  getModelName :: "CodeGenModel \<Rightarrow> string"
  superGetNativeType :: "CodeGenField \<Rightarrow> string"
  computeVersion :: "visitor \<Rightarrow> string"
  blockString :: "JavaDeclarationBlock \<Rightarrow> string"
  GENERATED_PACKAGE_NAME :: string
  LOADER_CLASS_NAME :: string
  CLASS_IMPORT_PACKAGES :: "string list"
  LOADER_IMPORT_PACKAGES :: "string list"

subsection \<open>Loops that thread the visitor and may fault\<close>

text \<open>
  \<^verbatim>\<open>map\<close> and \<^verbatim>\<open>forEach\<close> with a callback that mutates the visitor, in array order.  The
  versions with an index stop at the first fault, as the exception would.
\<close>

fun mapS :: "('a \<Rightarrow> 's \<Rightarrow> 'b \<times> 's) \<Rightarrow> 'a list \<Rightarrow> 's \<Rightarrow> 'b list \<times> 's" where
  "mapS f [] s = ([], s)"
| "mapS f (x # xs) s =
     (case f x s of (y, s1) \<Rightarrow> (case mapS f xs s1 of (ys, s2) \<Rightarrow> (y # ys, s2)))"

fun forEachS :: "('a \<Rightarrow> 'b \<Rightarrow> 's \<Rightarrow> 'b \<times> 's) \<Rightarrow> 'a list \<Rightarrow> 'b \<Rightarrow> 's \<Rightarrow> 'b \<times> 's" where
  "forEachS f [] b s = (b, s)"
| "forEachS f (x # xs) b s = (case f x b s of (b1, s1) \<Rightarrow> forEachS f xs b1 s1)"

fun mapIdxE ::
  "('a \<Rightarrow> nat \<Rightarrow> 's \<Rightarrow> (error + 'b) \<times> 's) \<Rightarrow> nat \<Rightarrow> 'a list \<Rightarrow> 's \<Rightarrow> (error + 'b list) \<times> 's" where
  "mapIdxE f idx [] s = (Inr [], s)"
| "mapIdxE f idx (x # xs) s =
     (case f x idx s of
        (Inl err, s1) \<Rightarrow> (Inl err, s1)
      | (Inr y, s1) \<Rightarrow>
          (case mapIdxE f (Suc idx) xs s1 of
             (Inl err, s2) \<Rightarrow> (Inl err, s2)
           | (Inr ys, s2) \<Rightarrow> (Inr (y # ys), s2)))"

fun forEachIdxE ::
  "('a \<Rightarrow> nat \<Rightarrow> 'b \<Rightarrow> 's \<Rightarrow> (error + 'b) \<times> 's) \<Rightarrow> nat \<Rightarrow> 'a list \<Rightarrow> 'b \<Rightarrow> 's \<Rightarrow>
   (error + 'b) \<times> 's" where
  "forEachIdxE f idx [] b s = (Inr b, s)"
| "forEachIdxE f idx (x # xs) b s =
     (case f x idx b s of
        (Inl err, s1) \<Rightarrow> (Inl err, s1)
      | (Inr b1, s1) \<Rightarrow> forEachIdxE f (Suc idx) xs b1 s1)"

fun mapSE :: "('a \<Rightarrow> 's \<Rightarrow> (error + 'b) \<times> 's) \<Rightarrow> 'a list \<Rightarrow> 's \<Rightarrow> (error + 'b list) \<times> 's" where
  "mapSE f [] s = (Inr [], s)"
| "mapSE f (x # xs) s =
     (case f x s of
        (Inl err, s1) \<Rightarrow> (Inl err, s1)
      | (Inr y, s1) \<Rightarrow>
          (case mapSE f xs s1 of
             (Inl err, s2) \<Rightarrow> (Inl err, s2)
           | (Inr ys, s2) \<Rightarrow> (Inr (y # ys), s2)))"

fun mapE :: "('a \<Rightarrow> error + 'b) \<Rightarrow> 'a list \<Rightarrow> error + 'b list" where
  "mapE f [] = Inr []"
| "mapE f (x # xs) =
     (case f x of
        Inl err \<Rightarrow> Inl err
      | Inr y \<Rightarrow> (case mapE f xs of Inl err \<Rightarrow> Inl err | Inr ys \<Rightarrow> Inr (y # ys)))"

text \<open>\<^verbatim>\<open>x.name\<close> for an array element \<^verbatim>\<open>x\<close> that may be \<^verbatim>\<open>undefined\<close>.\<close>

fun propName :: "CodeGenField option \<Rightarrow> error + string" where
  "propName None = Inl (TypeError ''Cannot read property 'name' of undefined'')"
| "propName (Some field) = Inr (f_name field)"

subsection \<open>Names and types\<close>

definition getFieldGetterName :: "collaborators \<Rightarrow> CodeGenField \<Rightarrow> string" where
  "getFieldGetterName e field = ''get'' @ pascalCase e (f_name field)"

definition getStepFunctionName :: "collaborators \<Rightarrow> CodeGenField \<Rightarrow> string" where
  "getStepFunctionName e field = camelCase e (f_name field)"

definition getStepFunctionArgumentName :: "collaborators \<Rightarrow> CodeGenField \<Rightarrow> string" where
  "getStepFunctionArgumentName e field = camelCase e (f_name field)"

definition getStepInterfaceName :: "collaborators \<Rightarrow> string \<Rightarrow> string" where
  "getStepInterfaceName e nextFieldName = ''I'' @ pascalCase e nextFieldName @ ''Step''"

text \<open>
  \<^verbatim>\<open>getNativeType\<close>: a qualified type is registered in \<^verbatim>\<open>additionalPackages\<close> and shortened
  to its last segment (\<^verbatim>\<open>split\<close> never yields the empty array, so that segment exists).
\<close>

definition getNativeType :: "collaborators \<Rightarrow> CodeGenField \<Rightarrow> visitor \<Rightarrow> string \<times> visitor" where
  "getNativeType e field v =
     (let nativeType = superGetNativeType e field in
      if CHR ''.'' \<in> set nativeType then
        (let classSplit = splitOn (CHR ''.'') nativeType;
             v1 = v\<lparr>additionalPackages := setAdd nativeType (additionalPackages v)\<rparr>
         in (last classSplit, v1))
      else (nativeType, v))"

subsection \<open>Package header\<close>

definition generatePackageName :: "collaborators \<Rightarrow> string" where
  "generatePackageName e = ''package '' @ GENERATED_PACKAGE_NAME e @ '';''"

definition generateImportStatements :: "string list \<Rightarrow> string" where
  "generateImportStatements packages =
     join nl (map (\<lambda>pkg. if pkg \<noteq> [] then ''import '' @ pkg @ '';'' else []) packages)"

definition generatePackageHeader :: "collaborators \<Rightarrow> visitor \<Rightarrow> string" where
  "generatePackageHeader e v =
     (let imports = generateImportStatements
            (additionalPackages v @ [[]] @ CLASS_IMPORT_PACKAGES e)
      in join nl [generatePackageName e, [], imports])"

subsection \<open>Annotations\<close>

text \<open>
  The argument list of a \<^verbatim>\<open>connection\<close> directive's annotation.  \<^verbatim>\<open>Object.keys\<close> of the
  arguments is the keys of the association list, and a property read is \<open>map_of\<close>.
\<close>

definition connectionArgs :: "(string \<times> jsval) list \<Rightarrow> string list" where
  "connectionArgs args =
     concat (map (\<lambda>argName.
         if argName \<in> set [''name'', ''keyField'', ''sortField'', ''keyName'']
         then [argName @ '' = \"'' @ toTemplateString (map_of args argName) @ ''\"'']
         else [])
       (map fst args))
     @ (if truthy (map_of args ''limit'')
        then [''limit = '' @ toTemplateString (map_of args ''limit'')] else [])
     @ (if truthy (map_of args ''fields'') \<and> isArray (map_of args ''fields'')
        then (case map_of args ''fields'' of
                Some (JSArr fs) \<Rightarrow>
                  [''fields = {{'' @ join '', '' (map (\<lambda>f. ''\"'' @ f @ ''\"'') fs) @ ''}'']
              | _ \<Rightarrow> [])
        else [])"

definition generateFieldAnnotations :: "collaborators \<Rightarrow> CodeGenField \<Rightarrow> string list" where
  "generateFieldAnnotations e field =
     (let annotationArgs = filter (\<lambda>arg. arg \<noteq> [])
            [''targetName=\"'' @ f_name field @ ''\"'',
             ''targetType=\"'' @ f_type field @ ''\"'',
             if \<not> f_isNullable field then ''isRequired = true'' else []];
          annotations = [''ModelField('' @ join '', '' annotationArgs @ '')'']
      in fold (\<lambda>annotation annotations.
           if d_name annotation = ''connection'' then
             (let cArgs = connectionArgs (d_arguments annotation) in
              if cArgs \<noteq> [] then annotations @ [''Connection('' @ join '', '' cArgs @ '')'']
              else annotations)
           else annotations)
         (f_directives field) annotations)"

text \<open>
  \<^verbatim>\<open>generateModelAnnotations\<close>.  In a \<^verbatim>\<open>key\<close> directive \<^verbatim>\<open>arguments.fields\<close> is cast to a
  string array and mapped: anything that is not an array has no \<^verbatim>\<open>map\<close>, a \<^verbatim>\<open>TypeError\<close>.
\<close>

definition modelAnnotation :: "CodeGenModel \<Rightarrow> CodeGenDirective \<Rightarrow> error + string" where
  "modelAnnotation model directive =
     (if d_name directive = ''model'' then
        Inr (''ModelConfig(targetName = \"'' @ m_name model @ ''\")'')
      else if d_name directive = ''key'' then
        (case map_of (d_arguments directive) ''fields'' of
           Some (JSArr fs) \<Rightarrow>
             Inr (''Index('' @ join '', ''
               [''name = \"'' @ toTemplateString (map_of (d_arguments directive) ''name'') @ ''\"'',
                ''fields = {'' @ join '','' (map (\<lambda>f. ''\"'' @ f @ ''\"'') fs) @ ''}''] @ '')'')
         | _ \<Rightarrow> Inl (TypeError ''directive.arguments.fields.map is not a function''))
      else Inr [])"

definition generateModelAnnotations :: "collaborators \<Rightarrow> CodeGenModel \<Rightarrow> error + string list" where
  "generateModelAnnotations e model =
     (case mapE (modelAnnotation model) (m_directives model) of
        Inl err \<Rightarrow> Inl err
      | Inr annotations \<Rightarrow>
          Inr (filter (\<lambda>annotation. annotation \<noteq> []) ([''SuppressWarnings(\"all\")''] @ annotations)))"

subsection \<open>Members of the model class\<close>

definition generateQueryFields ::
  "collaborators \<Rightarrow> CodeGenField \<Rightarrow> JavaDeclarationBlock \<Rightarrow> JavaDeclarationBlock" where
  "generateQueryFields e field classDeclarationBlock =
     (let queryFieldName = constantCase e (f_name field) in
      addClassMember queryFieldName ''QueryField'' (''field(\"'' @ getFieldName e field @ ''\")'')
        (Some []) ''public'' [''final'', ''static''] classDeclarationBlock)"

definition generateField ::
  "collaborators \<Rightarrow> CodeGenField \<Rightarrow> JavaDeclarationBlock \<Rightarrow> visitor \<Rightarrow> JavaDeclarationBlock \<times> visitor" where
  "generateField e field classDeclarationBlock v =
     (let annotations = generateFieldAnnotations e field in
      case getNativeType e field v of (fieldType, v1) \<Rightarrow>
        (let fieldName = getFieldName e field in
         (addClassMember fieldName fieldType [] (Some annotations) ''private'' [''final'']
            classDeclarationBlock, v1)))"

subsection \<open>Step interfaces\<close>

text \<open>The callback of \<^verbatim>\<open>nonIdFields.map\<close> in \<^verbatim>\<open>generateStepBuilderInterfaces\<close>.\<close>

definition stepInterface ::
  "collaborators \<Rightarrow> CodeGenField list \<Rightarrow> CodeGenField \<Rightarrow> nat \<Rightarrow> visitor \<Rightarrow>
   (error + JavaDeclarationBlock) \<times> visitor" where
  "stepInterface e nonIdFields field idx v =
     (let fieldName = getFieldName e field;
          isLastField = (int (length nonIdFields) - 1 = int idx)
      in case (if isLastField then Inr ''Build'' else propName (at nonIdFields (idx + 1))) of
           Inl err \<Rightarrow> (Inl err, v)
         | Inr returnType \<Rightarrow>
             (let interfaceName = getStepInterfaceName e (f_name field);
                  methodName = getStepFunctionName e field
              in case getNativeType e field v of (argumentType, v1) \<Rightarrow>
                (let argumentName = getStepFunctionArgumentName e field;
                     interfaceDeclaration =
                       access ''public'' (withName interfaceName (asKind ''interface'' newBlock))
                 in (Inr (withBlock
                       (indent e (getStepInterfaceName e returnType @ '' '' @ methodName @ ''(''
                          @ argumentType @ '' '' @ argumentName @ '');''))
                       interfaceDeclaration), v1))))"

text \<open>The callback of \<^verbatim>\<open>nullableFields.forEach\<close>: one line of the \<^verbatim>\<open>Build\<close> interface.\<close>

definition buildInterfaceSetter ::
  "collaborators \<Rightarrow> CodeGenField \<Rightarrow> visitor \<Rightarrow> string \<times> visitor" where
  "buildInterfaceSetter e field v =
     (let fieldName = getFieldName e field in
      case getNativeType e field v of (nativeType, v1) \<Rightarrow>
        (getStepInterfaceName e ''Build'' @ '' '' @ fieldName @ ''('' @ nativeType @ '' ''
           @ fieldName @ '');'', v1))"

definition generateStepBuilderInterfaces ::
  "collaborators \<Rightarrow> CodeGenModel \<Rightarrow> visitor \<Rightarrow> (error + JavaDeclarationBlock list) \<times> visitor" where
  "generateStepBuilderInterfaces e model v =
     (let nonNullableFields = filter (\<lambda>field. \<not> f_isNullable field) (m_fields model);
          nullableFields = filter (\<lambda>field. f_isNullable field) (m_fields model);
          nonIdFields = filter (\<lambda>field. f_name field \<notin> set READ_ONLY_FIELDS) nonNullableFields
      in case mapIdxE (stepInterface e nonIdFields) 0 nonIdFields v of
           (Inl err, v1) \<Rightarrow> (Inl err, v1)
         | (Inr interfaces, v1) \<Rightarrow>
             (let builder = access ''public''
                    (withName (getStepInterfaceName e ''Build'') (asKind ''interface'' newBlock));
                  builderBody =
                    [getModelName e model @ '' build();'',
                     getStepInterfaceName e ''Build'' @ '' id(String id) throws AmplifyException;'']
              in case mapS (buildInterfaceSetter e) nullableFields v1 of (setters, v2) \<Rightarrow>
                (Inr (interfaces @
                   [withBlock (indentMultiline e (join nl (builderBody @ setters)) 1) builder]),
                 v2)))"

subsection \<open>The builder class\<close>

text \<open>The text of the identity setter, line by line as the template literal has it.\<close>

definition idBuildStepBodyLines :: "string list" where
  "idBuildStepBodyLines =
     [''this.id = id;'',
      [],
      ''    try {'',
      ''        UUID.fromString(id); // Check that ID is in the UUID format - if not an exception is thrown'',
      ''    } catch (Exception exception) {'',
      ''        throw new AmplifyException(\"Model IDs must be unique in the format of UUID.\",'',
      ''                exception,'',
      ''                \"If you are creating a new object, leave ID blank and one will be auto generated for you. \" +'',
      ''                \"Otherwise, if you are referencing an existing object, be sure you are getting the correct \" +'',
      ''                \"id for it. It's also possible you are referring to an item created outside of Amplify.\" +'',
      ''                \"It is currently not supported.\",'',
      ''                false);'',
      ''    }'',
      [],
      ''    return this;'']"

definition idBuildStepBody :: "collaborators \<Rightarrow> string" where
  "idBuildStepBody e = dedent e (join nl idBuildStepBodyLines)"

definition idComment :: "collaborators \<Rightarrow> string" where
  "idComment e = dedent e (join nl
     [''WARNING: Do not set ID when creating a new object. Leave this blank and one will be auto generated for you.'',
      ''    This should only be set when referring to an already existing object.'',
      ''    @param id id'',
      ''    @return Current Builder instance, for fluent method chaining'',
      ''    @throws AmplifyException Checks that ID is in the proper format''])"

text \<open>The lines of \<^verbatim>\<open>build()\<close>: the array \<^verbatim>\<open>buildImplementation\<close> after its \<^verbatim>\<open>push\<close>.\<close>

definition buildImplementation :: "collaborators \<Rightarrow> CodeGenModel \<Rightarrow> string list" where
  "buildImplementation e model =
     (let buildImplementation0 =
            [''String id = this.id != null ? this.id : UUID.randomUUID().toString();'', []];
          buildParams = join ('','' @ nl) (map (\<lambda>field. getFieldName e field) (m_fields model))
      in buildImplementation0 @
           [''return new '' @ getModelName e model @ ''('' @ nl
              @ indentMultiline e buildParams 1 @ '');''])"

text \<open>The callback that adds one private slot to the builder.\<close>

definition builderSlot ::
  "collaborators \<Rightarrow> CodeGenField \<Rightarrow> JavaDeclarationBlock \<Rightarrow> visitor \<Rightarrow> JavaDeclarationBlock \<times> visitor" where
  "builderSlot e field builderClassDeclaration v =
     (let fieldName = getFieldName e field in
      case getNativeType e field v of (nativeType, v1) \<Rightarrow>
        (addClassMember fieldName nativeType [] None ''private'' [] builderClassDeclaration, v1))"

text \<open>The callback of \<^verbatim>\<open>stepFields.forEach\<close>: the setter of one required field.\<close>

definition stepMethod ::
  "collaborators \<Rightarrow> CodeGenField list \<Rightarrow> CodeGenField \<Rightarrow> nat \<Rightarrow> JavaDeclarationBlock \<Rightarrow> visitor \<Rightarrow>
   (error + JavaDeclarationBlock) \<times> visitor" where
  "stepMethod e fieldsArr field idx builderClassDeclaration v =
     (let isLastStep = (int idx = int (length fieldsArr) - 1);
          fieldName = getFieldName e field;
          methodName = getStepFunctionName e field
      in case (if isLastStep then Inr (getStepInterfaceName e ''Build'')
               else (case propName (at fieldsArr (idx + 1)) of
                       Inl err \<Rightarrow> Inl err
                     | Inr nextName \<Rightarrow> Inr (getStepInterfaceName e nextName))) of
           Inl err \<Rightarrow> (Inl err, v)
         | Inr returnType \<Rightarrow>
             (case getNativeType e field v of (argumentType, v1) \<Rightarrow>
                (let argumentName = getStepFunctionArgumentName e field;
                     body = join nl
                       [''Objects.requireNonNull('' @ fieldName @ '');'',
                        ''this.'' @ fieldName @ '' = '' @ argumentName @ '';'',
                        ''return this;'']
                 in (Inr (addClassMethod
                       (classMethod methodName (Some returnType) (indentMultiline e body 1)
                          (Some [(argumentName, argumentType)]) (Some []) ''public'' [] [''Override'']
                          [] None)
                       builderClassDeclaration), v1))))"

text \<open>The callback of \<^verbatim>\<open>nullableFields.forEach\<close>: the setter of one optional field.\<close>

definition nullableMethod ::
  "collaborators \<Rightarrow> CodeGenField \<Rightarrow> JavaDeclarationBlock \<Rightarrow> visitor \<Rightarrow> JavaDeclarationBlock \<times> visitor" where
  "nullableMethod e field builderClassDeclaration v =
     (let fieldName = getFieldName e field;
          methodName = getStepFunctionName e field;
          returnType = getStepInterfaceName e ''Build''
      in case getNativeType e field v of (argumentType, v1) \<Rightarrow>
        (let argumentName = getStepFunctionArgumentName e field;
             body = join nl [''this.'' @ fieldName @ '' = '' @ argumentName @ '';'', ''return this;'']
         in (addClassMethod
               (classMethod methodName (Some returnType) (indentMultiline e body 1)
                  (Some [(argumentName, argumentType)]) (Some []) ''public'' [] [''Override''] [] None)
               builderClassDeclaration, v1)))"

definition generateBuilderClass ::
  "collaborators \<Rightarrow> CodeGenModel \<Rightarrow> JavaDeclarationBlock \<Rightarrow> visitor \<Rightarrow>
   (error + JavaDeclarationBlock) \<times> visitor" where
  "generateBuilderClass e model classDeclaration v =
     (let nonNullableFields = filter (\<lambda>field. \<not> f_isNullable field) (m_fields model);
          nullableFields = filter (\<lambda>field. f_isNullable field) (m_fields model);
          stepFields = filter (\<lambda>field. f_name field \<notin> set READ_ONLY_FIELDS) nonNullableFields;
          stepInterfaces = map (\<lambda>field. getStepInterfaceName e (f_name field)) stepFields;
          builderClassDeclaration =
            implements (stepInterfaces @ [getStepInterfaceName e ''Build''])
              (withName ''Builder'' (asKind ''class'' (static (access ''public'' newBlock))))
      in case forEachS (builderSlot e) (nonNullableFields @ nullableFields)
                builderClassDeclaration v of
           (b1, v1) \<Rightarrow>
      (case propName (at stepFields 0) of
         Inl err \<Rightarrow> (Inl err, v1)
       | Inr firstName \<Rightarrow>
      (let b2 = addClassMethod
                 (classMethod ''builder'' (Some (getStepInterfaceName e firstName))
                    (indentMultiline e ''return new Builder();'' 1) (Some []) (Some []) ''public''
                    [''static''] [] [] None) b1;
           b3 = addClassMethod
                 (classMethod ''build'' (Some (getModelName e model))
                    (indentMultiline e (join nl (buildImplementation e model)) 1) None (Some [])
                    ''public'' [] [''Override''] [] None) b2
       in case forEachIdxE (stepMethod e stepFields) 0 stepFields b3 v1 of
            (Inl err, v2) \<Rightarrow> (Inl err, v2)
          | (Inr b4, v2) \<Rightarrow>
      (case forEachS (nullableMethod e) nullableFields b4 v2 of
         (b5, v3) \<Rightarrow>
      (let b6 = addClassMethod
                 (classMethod ''id'' (Some (getStepInterfaceName e ''Build''))
                    (indentMultiline e (idBuildStepBody e) 1) (Some [(''id'', ''String'')])
                    (Some []) ''public'' [] [] [''AmplifyException''] (Some (idComment e))) b5
       in (Inr (nestedClass b6 classDeclaration), v3))))))"

subsection \<open>Getters, constructor, equality and hash\<close>

definition getter ::
  "collaborators \<Rightarrow> CodeGenField \<Rightarrow> JavaDeclarationBlock \<Rightarrow> visitor \<Rightarrow> JavaDeclarationBlock \<times> visitor" where
  "getter e field declarationsBlock v =
     (let fieldName = getFieldName e field in
      case getNativeType e field v of (returnType, v1) \<Rightarrow>
        (let methodName = getFieldGetterName e field;
             body = indent e (''return '' @ fieldName @ '';'')
         in (addClassMethod
               (classMethod methodName (Some returnType) body None None ''public'' [] [] [] None)
               declarationsBlock, v1)))"

definition generateGetters ::
  "collaborators \<Rightarrow> CodeGenModel \<Rightarrow> JavaDeclarationBlock \<Rightarrow> visitor \<Rightarrow> JavaDeclarationBlock \<times> visitor" where
  "generateGetters e model declarationsBlock v =
     forEachS (getter e) (m_fields model) declarationsBlock v"

definition constructorArgument ::
  "collaborators \<Rightarrow> CodeGenField \<Rightarrow> visitor \<Rightarrow> (string \<times> string) \<times> visitor" where
  "constructorArgument e field v =
     (case getNativeType e field v of (nativeType, v1) \<Rightarrow> ((getFieldName e field, nativeType), v1))"

definition generateConstructor ::
  "collaborators \<Rightarrow> CodeGenModel \<Rightarrow> JavaDeclarationBlock \<Rightarrow> visitor \<Rightarrow> JavaDeclarationBlock \<times> visitor" where
  "generateConstructor e model declarationsBlock v =
     (let name = getModelName e model;
          body = join nl (map (\<lambda>field.
                   (let fieldName = getFieldName e field in
                    ''this.'' @ fieldName @ '' = '' @ fieldName @ '';'')) (m_fields model))
      in case mapS (constructorArgument e) (m_fields model) v of (constructorArguments, v1) \<Rightarrow>
        (addClassMethod
           (classMethod name None body (Some constructorArguments) None ''private'' [] [] [] None)
           declarationsBlock, v1))"

text \<open>The conjuncts of \<^verbatim>\<open>equals\<close>, one per field: the array that is joined by \<^verbatim>\<open>&&\<close>.\<close>

definition equalsPropChecks :: "collaborators \<Rightarrow> CodeGenModel \<Rightarrow> string list" where
  "equalsPropChecks e model =
     (let instanceName = camelCase e (m_name model) in
      map (\<lambda>field.
        (let getterName = getFieldGetterName e field in
         ''ObjectsCompat.equals('' @ getterName @ ''(), '' @ instanceName @ ''.'' @ getterName @ ''())''))
        (m_fields model))"

definition generateEqualsMethod ::
  "collaborators \<Rightarrow> CodeGenModel \<Rightarrow> JavaDeclarationBlock \<Rightarrow> JavaDeclarationBlock" where
  "generateEqualsMethod e model declarationBlock =
     (let paramName = ''obj'';
          className = getModelName e model;
          instanceName = camelCase e (m_name model);
          body0 =
            [''if (this == '' @ paramName @ '') {'',
             ''  return true;'',
             ''} else if('' @ paramName @ '' == null || getClass() != '' @ paramName @ ''.getClass()) {'',
             ''  return false;'',
             ''} else {''];
          body1 = body0 @ [className @ '' '' @ instanceName @ '' = ('' @ className @ '') '' @ paramName @ '';''];
          propCheck = trimStart (indentMultiline e (join ('' &&'' @ nl) (equalsPropChecks e model)) 4);
          body2 = body1 @ [''return '' @ propCheck @ '';''] @ [''}'']
      in addClassMethod
           (classMethod ''equals'' (Some ''boolean'') (indentMultiline e (join nl body2) 1)
              (Some [(paramName, ''Object'')]) (Some []) ''public'' [] [''Override''] [] None)
           declarationBlock)"

text \<open>The lines of \<^verbatim>\<open>hashCode\<close>: the array that is joined by line breaks.\<close>

definition hashCodeLines :: "collaborators \<Rightarrow> CodeGenModel \<Rightarrow> string list" where
  "hashCodeLines e model =
     [''return new StringBuilder()'']
     @ map (\<lambda>field. ''.append('' @ getFieldGetterName e field @ ''())'') (m_fields model)
     @ [''.hashCode();'']"

definition generateHashCodeMethod ::
  "collaborators \<Rightarrow> CodeGenModel \<Rightarrow> JavaDeclarationBlock \<Rightarrow> JavaDeclarationBlock" where
  "generateHashCodeMethod e model declarationBlock =
     (let body = join nl (hashCodeLines e model) in
      addClassMethod
        (classMethod ''hashCode'' (Some ''int'') (trimStart (indentMultiline e body 1)) (Some [])
           (Some []) ''public'' [] [''Override''] [] None)
        declarationBlock)"

subsection \<open>One class, and the classes of a pass\<close>

definition generateClass :: "collaborators \<Rightarrow> CodeGenModel \<Rightarrow> visitor \<Rightarrow> (error + string) \<times> visitor" where
  "generateClass e model v =
     (let classDeclarationBlock =
            final (withComment
              (''This is an auto generated class representing the '' @ m_name model
                 @ '' type in your schema.'')
              (implements [''Model'']
                (withName (getModelName e model) (access ''public'' (asKind ''class'' newBlock)))))
      in case generateModelAnnotations e model of
           Inl err \<Rightarrow> (Inl err, v)
         | Inr annotations \<Rightarrow>
      (let b1 = annotate annotations classDeclarationBlock;
           b2 = fold (generateQueryFields e) (m_fields model) b1
       in case forEachS (generateField e) (m_fields model) b2 v of
            (b3, v1) \<Rightarrow>
      (case generateStepBuilderInterfaces e model v1 of
         (Inl err, v2) \<Rightarrow> (Inl err, v2)
       | (Inr builderInterfaces, v2) \<Rightarrow>
      (let b4 = fold nestedClass builderInterfaces b3
       in case generateBuilderClass e model b4 v2 of
            (Inl err, v3) \<Rightarrow> (Inl err, v3)
          | (Inr b5, v3) \<Rightarrow>
      (case generateGetters e model b5 v3 of
         (b6, v4) \<Rightarrow>
      (case generateConstructor e model b6 v4 of
         (b7, v5) \<Rightarrow>
      (let b8 = generateEqualsMethod e model b7;
           b9 = generateHashCodeMethod e model b8
       in (Inr (blockString e b9), v5))))))))"

definition generateClasses :: "collaborators \<Rightarrow> visitor \<Rightarrow> (error + string) \<times> visitor" where
  "generateClasses e v =
     (case mapSE (\<lambda>(name, model). generateClass e model) (getSelectedModels v) v of
        (Inl err, v1) \<Rightarrow> (Inl err, v1)
      | (Inr result, v1) \<Rightarrow>
          (let packageDeclaration = generatePackageHeader e v1 in
           (Inr (join nl (packageDeclaration # result)), v1)))"

subsection \<open>The loader\<close>

definition classList :: "collaborators \<Rightarrow> visitor \<Rightarrow> string" where
  "classList e v =
     join '', '' (map (\<lambda>model. getModelName e model @ ''.class'') (map snd (typeMap v)))"

definition modelsMethodImplementation :: "collaborators \<Rightarrow> visitor \<Rightarrow> string" where
  "modelsMethodImplementation e v =
     ''final Set<Class<? extends Model>> modifiableSet = new HashSet<>('' @ nl
     @ ''      Arrays.<Class<? extends Model>>asList('' @ classList e v @ '')'' @ nl
     @ ''    );'' @ nl
     @ nl
     @ ''    return Immutable.of(modifiableSet);'' @ nl
     @ ''    ''"

text \<open>The declaration block of the loader, after its last \<^verbatim>\<open>addClassMethod\<close>.\<close>

definition loaderClassDeclaration :: "collaborators \<Rightarrow> visitor \<Rightarrow> JavaDeclarationBlock" where
  "loaderClassDeclaration e v =
     (let AMPLIFY_MODEL_VERSION = ''AMPLIFY_MODEL_VERSION'';
          b0 = implements [''ModelProvider'']
                 (asKind ''class'' (final (access ''public'' (withName (LOADER_CLASS_NAME e) newBlock))));
          b1 = addClassMember AMPLIFY_MODEL_VERSION ''String'' (''\"'' @ computeVersion e v @ ''\"'')
                 (Some []) ''private'' [''final'', ''static''] b0;
          b2 = addClassMember ''amplifyGeneratedModelInstance'' (LOADER_CLASS_NAME e) [] (Some [])
                 ''private'' [''static''] b1;
          b3 = addClassMethod
                 (classMethod (LOADER_CLASS_NAME e) None [] (Some []) (Some []) ''private'' [] [] []
                    None) b2;
          getInstanceBody = dedent e (join nl
            [[],
             ''    if (amplifyGeneratedModelInstance == null) {'',
             ''      amplifyGeneratedModelInstance = new '' @ LOADER_CLASS_NAME e @ ''();'',
             ''    }'',
             ''    return amplifyGeneratedModelInstance;'']);
          b4 = addClassMethod
                 (classMethod ''getInstance'' (Some (LOADER_CLASS_NAME e)) getInstanceBody (Some [])
                    (Some []) ''public'' [''static'', ''synchronized''] [] [] None) b3;
          modelsMethodDocString = dedent e (join nl
            [[],
             ''    Get a set of the model classes.'',
             [],
             ''    @return a set of the model classes.'']);
          b5 = addClassMethod
                 (classMethod ''models'' (Some ''Set<Class<? extends Model>>'')
                    (modelsMethodImplementation e v) (Some []) (Some []) ''public'' [] [''Override'']
                    [] (Some modelsMethodDocString)) b4;
          versionMethodDocString = dedent e (join nl
            [[],
             ''    Get the version of the models.'',
             [],
             ''    @return the version string of the models.'',
             ''    '']);
          b6 = addClassMethod
                 (classMethod ''version'' (Some ''String'') (''return '' @ AMPLIFY_MODEL_VERSION @ '';'')
                    (Some []) (Some []) ''public'' [] [''Override''] []
                    (Some versionMethodDocString)) b5
      in b6)"

definition generateClassLoader :: "collaborators \<Rightarrow> visitor \<Rightarrow> string" where
  "generateClassLoader e v =
     join nl
       [generatePackageName e, [], generateImportStatements (LOADER_IMPORT_PACKAGES e),
        transformComment e (dedent e (join nl
          ['' Contains the set of model classes that implement {@link Model}'',
           ''    interface.''])),
        blockString e (loaderClassDeclaration e v)]"

section \<open>The generated Java, as a program\<close>

text \<open>
  Two method bodies the visitor emits are claimed to behave in a certain way when the
  generated Java runs: the identity setter and \<^verbatim>\<open>build()\<close>.  The fragment of Java they
  are written in is given a syntax, a printer and a big-step execution.  Each body is
  written once as a program of that syntax; printing the program gives the emitted text up
  to white space, which ties the program to the text of the template.
\<close>

subsection \<open>Syntax and printer\<close>

datatype jexpr =
    EVar string
  | EThis
  | EField string
  | ENull
  | EStr string
  | EBool bool
  | EConcat jexpr jexpr
  | ENe jexpr jexpr
  | ECond jexpr jexpr jexpr
  | EStatic string string "jexpr list"
  | EInvoke jexpr string "jexpr list"
  | ENew string "jexpr list"

datatype jstmt =
    SAssignField string jexpr
  | SLocal string string jexpr
  | SExpr jexpr "string option"
  | STryCatch "jstmt list" string string "jstmt list"
  | SThrow jexpr
  | SReturn jexpr





text \<open>The identity setter (the template \<^verbatim>\<open>idBuildStepBody\<close>) as a program.\<close>

definition idSetterProgram :: "jstmt list" where
  "idSetterProgram =
     [SAssignField ''id'' (EVar ''id''),
      STryCatch
        [SExpr (EStatic ''UUID'' ''fromString'' [EVar ''id''])
           (Some ''Check that ID is in the UUID format - if not an exception is thrown'')]
        ''Exception'' ''exception''
        [SThrow (ENew ''AmplifyException''
           [EStr ''Model IDs must be unique in the format of UUID.'',
            EVar ''exception'',
            EConcat (EConcat (EConcat
              (EStr ''If you are creating a new object, leave ID blank and one will be auto generated for you. '')
              (EStr ''Otherwise, if you are referencing an existing object, be sure you are getting the correct ''))
              (EStr ''id for it. It's also possible you are referring to an item created outside of Amplify.''))
              (EStr ''It is currently not supported.''),
            EBool False])],
      SReturn EThis]"

subsection \<open>Execution\<close>

text \<open>
  A value is \<^verbatim>\<open>null\<close>, a string, a boolean, the receiver, or an object given by its class
  and the arguments it was constructed from.  The state is the receiver's fields (a field
  never assigned holds \<^verbatim>\<open>null\<close>) and the local variables and parameters in scope; a plain
  name is a local when one is in scope, and a field of the receiver otherwise.  What the
  Java library does is a parameter: which strings \<^verbatim>\<open>UUID.fromString\<close> accepts, what it
  throws for the others, and the string of the \<^verbatim>\<open>UUID.randomUUID()\<close> of this run.  A
  \<^verbatim>\<open>catch (Exception ...)\<close> catches every exception; anything outside the fragment is stuck.
\<close>

datatype jval = VNull | VStr string | VBool bool | VThis | VObj string "jval list"

datatype jres = Val jval | Exn jval | StuckE

datatype outcome = Normal | Returned jval | Thrown jval | Stuck

record jstate =
  slots :: "string \<Rightarrow> jval"
  locals :: "(string \<times> jval) list"

record javaLib =
  validUUID :: "string \<Rightarrow> bool"
  fromStringFailure :: "string \<Rightarrow> jval"
  randomUUIDString :: string

definition staticCall :: "javaLib \<Rightarrow> string \<Rightarrow> string \<Rightarrow> jval list \<Rightarrow> jres" where
  "staticCall lib c m args =
     (if c = ''UUID'' \<and> m = ''fromString'' then
        (case args of
           [VStr s] \<Rightarrow> if validUUID lib s then Val (VObj ''UUID'' [VStr s])
                       else Exn (fromStringFailure lib s)
         | [VNull] \<Rightarrow> Exn (VObj ''NullPointerException'' [])
         | _ \<Rightarrow> StuckE)
      else if c = ''UUID'' \<and> m = ''randomUUID'' \<and> args = [] then
        Val (VObj ''UUID'' [VStr (randomUUIDString lib)])
      else StuckE)"

definition invoke :: "jval \<Rightarrow> string \<Rightarrow> jval list \<Rightarrow> jres" where
  "invoke obj m args =
     (case obj of
        VObj c fs \<Rightarrow>
          (if c = ''UUID'' \<and> m = ''toString'' \<and> args = [] then
             (case fs of [VStr s] \<Rightarrow> Val (VStr s) | _ \<Rightarrow> StuckE)
           else StuckE)
      | VNull \<Rightarrow> Exn (VObj ''NullPointerException'' [])
      | _ \<Rightarrow> StuckE)"

definition lookupVar :: "jstate \<Rightarrow> string \<Rightarrow> jval" where
  "lookupVar st x = (case map_of (locals st) x of Some v \<Rightarrow> v | None \<Rightarrow> slots st x)"

fun evalExpr :: "javaLib \<Rightarrow> jstate \<Rightarrow> jexpr \<Rightarrow> jres"
  and evalArgs :: "javaLib \<Rightarrow> jstate \<Rightarrow> jexpr list \<Rightarrow> jres + jval list" where
  "evalExpr lib st (EVar x) = Val (lookupVar st x)"
| "evalExpr lib st EThis = Val VThis"
| "evalExpr lib st (EField f) = Val (slots st f)"
| "evalExpr lib st ENull = Val VNull"
| "evalExpr lib st (EStr s) = Val (VStr s)"
| "evalExpr lib st (EBool b) = Val (VBool b)"
| "evalExpr lib st (EConcat a b) =
     (case evalExpr lib st a of
        Val (VStr x) \<Rightarrow>
          (case evalExpr lib st b of Val (VStr y) \<Rightarrow> Val (VStr (x @ y)) | Val _ \<Rightarrow> StuckE | r \<Rightarrow> r)
      | Val _ \<Rightarrow> StuckE
      | r \<Rightarrow> r)"
| "evalExpr lib st (ENe a b) =
     (case evalExpr lib st a of
        Val x \<Rightarrow> (case evalExpr lib st b of Val y \<Rightarrow> Val (VBool (x \<noteq> y)) | r \<Rightarrow> r)
      | r \<Rightarrow> r)"
| "evalExpr lib st (ECond c a b) =
     (case evalExpr lib st c of
        Val (VBool t) \<Rightarrow> if t then evalExpr lib st a else evalExpr lib st b
      | Val _ \<Rightarrow> StuckE
      | r \<Rightarrow> r)"
| "evalExpr lib st (EStatic c m args) =
     (case evalArgs lib st args of Inl r \<Rightarrow> r | Inr vs \<Rightarrow> staticCall lib c m vs)"
| "evalExpr lib st (EInvoke obj m args) =
     (case evalExpr lib st obj of
        Val v \<Rightarrow> (case evalArgs lib st args of Inl r \<Rightarrow> r | Inr vs \<Rightarrow> invoke v m vs)
      | r \<Rightarrow> r)"
| "evalExpr lib st (ENew c args) =
     (case evalArgs lib st args of Inl r \<Rightarrow> r | Inr vs \<Rightarrow> Val (VObj c vs))"
| "evalArgs lib st [] = Inr []"
| "evalArgs lib st (a # as) =
     (case evalExpr lib st a of
        Val v \<Rightarrow> (case evalArgs lib st as of Inl r \<Rightarrow> Inl r | Inr vs \<Rightarrow> Inr (v # vs))
      | r \<Rightarrow> Inl r)"

fun exec :: "javaLib \<Rightarrow> jstmt \<Rightarrow> jstate \<Rightarrow> outcome \<times> jstate"
  and execs :: "javaLib \<Rightarrow> jstmt list \<Rightarrow> jstate \<Rightarrow> outcome \<times> jstate" where
  "exec lib (SAssignField f a) st =
     (case evalExpr lib st a of
        Val v \<Rightarrow> (Normal, st\<lparr>slots := (slots st)(f := v)\<rparr>)
      | Exn x \<Rightarrow> (Thrown x, st)
      | StuckE \<Rightarrow> (Stuck, st))"
| "exec lib (SLocal t x a) st =
     (case evalExpr lib st a of
        Val v \<Rightarrow> (Normal, st\<lparr>locals := (x, v) # locals st\<rparr>)
      | Exn x \<Rightarrow> (Thrown x, st)
      | StuckE \<Rightarrow> (Stuck, st))"
| "exec lib (SExpr a c) st =
     (case evalExpr lib st a of
        Val v \<Rightarrow> (Normal, st)
      | Exn x \<Rightarrow> (Thrown x, st)
      | StuckE \<Rightarrow> (Stuck, st))"
| "exec lib (STryCatch body t x handler) st =
     (case execs lib body st of
        (Thrown ex, st1) \<Rightarrow>
          (if t = ''Exception'' then
             (case execs lib handler (st1\<lparr>locals := (x, ex) # locals st\<rparr>) of
                (out, st2) \<Rightarrow> (out, st2\<lparr>locals := locals st\<rparr>))
           else (Stuck, st1))
      | (out, st1) \<Rightarrow> (out, st1\<lparr>locals := locals st\<rparr>))"
| "exec lib (SThrow a) st =
     (case evalExpr lib st a of
        Val v \<Rightarrow> (Thrown v, st)
      | Exn x \<Rightarrow> (Thrown x, st)
      | StuckE \<Rightarrow> (Stuck, st))"
| "exec lib (SReturn a) st =
     (case evalExpr lib st a of
        Val v \<Rightarrow> (Returned v, st)
      | Exn x \<Rightarrow> (Thrown x, st)
      | StuckE \<Rightarrow> (Stuck, st))"
| "execs lib [] st = (Normal, st)"
| "execs lib (s # ss) st =
     (case exec lib s st of
        (Normal, st1) \<Rightarrow> execs lib ss st1
      | r \<Rightarrow> r)"

text \<open>A call: the parameters bound to the arguments; the outcome and the receiver's fields after.\<close>

definition callMethod ::
  "javaLib \<Rightarrow> string list \<Rightarrow> jstmt list \<Rightarrow> (string \<Rightarrow> jval) \<Rightarrow> jval list \<Rightarrow> outcome \<times> (string \<Rightarrow> jval)" where
  "callMethod lib params body this args =
     (case execs lib body \<lparr>slots = this, locals = zip params args\<rparr> of
        (out, st) \<Rightarrow> (out, slots st))"


section \<open>Observations and example inputs\<close>

text \<open>The visitor as its constructor leaves it: the field initialiser makes the set empty.\<close>

definition newVisitor :: "(string \<times> CodeGenModel) list \<Rightarrow> (string \<Rightarrow> bool) \<Rightarrow> visitor" where
  "newVisitor types sel = \<lparr>typeMap = types, selector = sel, additionalPackages = []\<rparr>"

text \<open>The string \<^verbatim>\<open>getNativeType\<close> returns, and what it does to the set.\<close>

definition nativeTypeName :: "collaborators \<Rightarrow> CodeGenField \<Rightarrow> string" where
  "nativeTypeName e field =
     (if CHR ''.'' \<in> set (superGetNativeType e field)
      then last (splitOn (CHR ''.'') (superGetNativeType e field))
      else superGetNativeType e field)"

definition register :: "collaborators \<Rightarrow> CodeGenField \<Rightarrow> string list \<Rightarrow> string list" where
  "register e field pkgs =
     (if CHR ''.'' \<in> set (superGetNativeType e field)
      then setAdd (superGetNativeType e field) pkgs else pkgs)"

text \<open>The builder class nested last in a class declaration, when the generator returned one.\<close>

definition builderOf :: "(error + JavaDeclarationBlock) \<times> visitor \<Rightarrow> JavaDeclarationBlock option" where
  "builderOf r =
     (case fst r of
        Inl err \<Rightarrow> None
      | Inr classDeclaration \<Rightarrow>
          (if b_nested classDeclaration = [] then None
           else Some (last (b_nested classDeclaration))))"


text \<open>Example collaborators: simple stand-ins for the external helpers.\<close>

definition upperFirst :: "string \<Rightarrow> string" where
  "upperFirst s =
     (case s of [] \<Rightarrow> []
      | c # cs \<Rightarrow>
          (case map_of (zip ''abcdefghijklmnopqrstuvwxyz'' ''ABCDEFGHIJKLMNOPQRSTUVWXYZ'') c of
             None \<Rightarrow> c | Some u \<Rightarrow> u) # cs)"

definition exampleNativeType :: "CodeGenField \<Rightarrow> string" where
  "exampleNativeType field =
     (if f_type field = ''ID'' then ''String''
      else if f_type field = ''AWSDate'' then ''java.util.Date''
      else f_type field)"

definition exampleCollaborators :: collaborators where
  "exampleCollaborators =
     \<lparr>pascalCase = upperFirst, camelCase = (\<lambda>s. s), constantCase = (\<lambda>s. s),
      indent = (\<lambda>s. ''  '' @ s), indentMultiline = (\<lambda>s n. concat (replicate n ''  '') @ s),
      transformComment = (\<lambda>s. s), dedent = (\<lambda>s. s),
      getFieldName = f_name, getModelName = m_name, superGetNativeType = exampleNativeType,
      computeVersion = (\<lambda>v. ''1''),
      blockString = (\<lambda>b. case b_name b of None \<Rightarrow> [] | Some n \<Rightarrow> n),
      GENERATED_PACKAGE_NAME = ''com.amplifyframework.datastore.generated.model'',
      LOADER_CLASS_NAME = ''AmplifyModelProvider'',
      CLASS_IMPORT_PACKAGES = [''java.util.UUID''],
      LOADER_IMPORT_PACKAGES = [''java.util.Set'']\<rparr>"

text \<open>The example models: the two scenarios of the spec, and a model with no required field.\<close>

definition examplePost :: CodeGenModel where
  "examplePost =
     \<lparr>m_name = ''Post'',
      m_fields =
        [\<lparr>f_name = ''id'', f_type = ''ID'', f_isNullable = False, f_directives = []\<rparr>,
         \<lparr>f_name = ''content'', f_type = ''String'', f_isNullable = True, f_directives = []\<rparr>,
         \<lparr>f_name = ''title'', f_type = ''String'', f_isNullable = False, f_directives = []\<rparr>],
      m_directives = [\<lparr>d_name = ''model'', d_arguments = []\<rparr>]\<rparr>"

definition exampleComment :: CodeGenModel where
  "exampleComment =
     \<lparr>m_name = ''Comment'',
      m_fields =
        [\<lparr>f_name = ''id'', f_type = ''ID'', f_isNullable = False, f_directives = []\<rparr>,
         \<lparr>f_name = ''postId'', f_type = ''ID'', f_isNullable = False, f_directives = []\<rparr>,
         \<lparr>f_name = ''createdOn'', f_type = ''AWSDate'', f_isNullable = True, f_directives = []\<rparr>,
         \<lparr>f_name = ''text'', f_type = ''String'', f_isNullable = False, f_directives = []\<rparr>],
      m_directives = [\<lparr>d_name = ''model'', d_arguments = []\<rparr>]\<rparr>"

definition exampleTodo :: CodeGenModel where
  "exampleTodo =
     \<lparr>m_name = ''Todo'',
      m_fields =
        [\<lparr>f_name = ''id'', f_type = ''ID'', f_isNullable = False, f_directives = []\<rparr>,
         \<lparr>f_name = ''name'', f_type = ''String'', f_isNullable = True, f_directives = []\<rparr>],
      m_directives = [\<lparr>d_name = ''model'', d_arguments = []\<rparr>]\<rparr>"

definition exampleVisitor :: visitor where
  "exampleVisitor =
     newVisitor [(''Comment'', exampleComment), (''Post'', examplePost)] (\<lambda>name. True)"

definition exampleVisitorPostOnly :: visitor where
  "exampleVisitorPostOnly =
     newVisitor [(''Comment'', exampleComment), (''Post'', examplePost)] (\<lambda>name. name = ''Post'')"



section \<open>Properties\<close>

subsection \<open>What getNativeType returns and registers\<close>

lemma getNativeType_eq:
  "getNativeType e field v =
     (nativeTypeName e field, v\<lparr>additionalPackages := register e field (additionalPackages v)\<rparr>)"
  by (simp add: getNativeType_def nativeTypeName_def register_def Let_def)

lemma splitOn_not_Nil: "splitOn c s \<noteq> []"
  by (induction s) (auto split: list.splits)

subsection \<open>Loops\<close>

lemma mapS_fst:
  assumes "\<And>x s. fst (f x s) = g x"
  shows "fst (mapS f xs s) = map g xs"
  using assms by (induction xs arbitrary: s) (auto simp: split_def)

lemma forEachS_fst:
  assumes "\<And>x b s. fst (f x b s) = h x b"
  shows "fst (forEachS f xs b s) = fold h xs b"
  using assms by (induction xs arbitrary: b s) (auto simp: split_def)

lemma mapS_snd:
  assumes "\<And>x s. snd (f x s) = k x s"
  shows "snd (mapS f xs s) = fold k xs s"
  using assms by (induction xs arbitrary: s) (auto simp: split_def)

lemma forEachS_snd:
  assumes "\<And>x b s. snd (f x b s) = k x s"
  shows "snd (forEachS f xs b s) = fold k xs s"
  using assms by (induction xs arbitrary: b s) (auto simp: split_def)

lemma mapIdxE_fst:
  assumes "\<And>j s. j < length xs \<Longrightarrow> fst (f (xs ! j) (i + j) s) = Inr (g j)"
  shows "fst (mapIdxE f i xs s) = Inr (map g [0..<length xs])"
  using assms
proof (induction xs arbitrary: i g s)
  case Nil
  then show ?case by simp
next
  case (Cons x xs)
  have h0: "fst (f x i s) = Inr (g 0)" using Cons.prems[of 0 s] by simp
  have hs: "\<And>j s. j < length xs \<Longrightarrow> fst (f (xs ! j) (Suc i + j) s) = Inr ((g \<circ> Suc) j)"
    using Cons.prems[of "Suc _"] by simp
  have ih: "\<And>s. fst (mapIdxE f (Suc i) xs s) = Inr (map (g \<circ> Suc) [0..<length xs])"
    using Cons.IH[OF hs] by simp
  obtain y s1 where f0: "f x i s = (y, s1)" by (cases "f x i s")
  with h0 have y: "y = Inr (g 0)" by simp
  obtain ys s2 where r: "mapIdxE f (Suc i) xs s1 = (ys, s2)" by (cases "mapIdxE f (Suc i) xs s1")
  with ih[of s1] have ys: "ys = Inr (map (g \<circ> Suc) [0..<length xs])" by simp
  show ?case
    by (simp add: f0 y r ys map_upt_Suc del: upt_Suc)
qed

lemma mapIdxE_snd:
  assumes "\<And>j s. j < length xs \<Longrightarrow> \<exists>y. f (xs ! j) (i + j) s = (Inr y, k (xs ! j) s)"
  shows "snd (mapIdxE f i xs s) = fold k xs s"
  using assms
proof (induction xs arbitrary: i s)
  case Nil
  then show ?case by simp
next
  case (Cons x xs)
  obtain y where f0: "f x i s = (Inr y, k x s)" using Cons.prems[of 0 s] by auto
  have hs: "\<And>j s. j < length xs \<Longrightarrow> \<exists>y. f (xs ! j) (Suc i + j) s = (Inr y, k (xs ! j) s)"
    using Cons.prems[of "Suc _"] by simp
  have ih: "snd (mapIdxE f (Suc i) xs (k x s)) = fold k xs (k x s)"
    using Cons.IH[OF hs] by simp
  show ?case using ih by (simp add: f0 split_def split: sum.splits)
qed

lemma fold_upt_Suc: "fold h [0..<Suc n] b = fold (\<lambda>j. h (Suc j)) [0..<n] (h 0 b)"
proof -
  have "[0..<Suc n] = 0 # map Suc [0..<n]"
    by (simp add: upt_conv_Cons map_Suc_upt del: upt_Suc)
  then show ?thesis by (simp add: fold_map comp_def del: upt_Suc)
qed

lemma forEachIdxE_fst:
  assumes "\<And>j b s. j < length xs \<Longrightarrow> fst (f (xs ! j) (i + j) b s) = Inr (h j b)"
  shows "fst (forEachIdxE f i xs b s) = Inr (fold h [0..<length xs] b)"
  using assms
proof (induction xs arbitrary: i h b s)
  case Nil
  then show ?case by simp
next
  case (Cons x xs)
  have h0: "fst (f x i b s) = Inr (h 0 b)" using Cons.prems[of 0 b s] by simp
  have hs: "\<And>j b s. j < length xs \<Longrightarrow> fst (f (xs ! j) (Suc i + j) b s) = Inr (h (Suc j) b)"
    using Cons.prems[of "Suc _"] by simp
  obtain y s1 where f0: "f x i b s = (y, s1)" by (cases "f x i b s")
  with h0 have y: "y = Inr (h 0 b)" by simp
  show ?case
    using Cons.IH[of "Suc i" "\<lambda>j. h (Suc j)" "h 0 b" s1, OF hs]
    by (simp add: f0 y fold_upt_Suc del: upt_Suc)
qed

lemma forEachIdxE_snd:
  assumes "\<And>j b s. j < length xs \<Longrightarrow> \<exists>y. f (xs ! j) (i + j) b s = (Inr y, k (xs ! j) s)"
  shows "snd (forEachIdxE f i xs b s) = fold k xs s"
  using assms
proof (induction xs arbitrary: i b s)
  case Nil
  then show ?case by simp
next
  case (Cons x xs)
  obtain y where f0: "f x i b s = (Inr y, k x s)" using Cons.prems[of 0 b s] by auto
  have hs: "\<And>j b s. j < length xs \<Longrightarrow> \<exists>y. f (xs ! j) (Suc i + j) b s = (Inr y, k (xs ! j) s)"
    using Cons.prems[of "Suc _"] by simp
  show ?case using Cons.IH[OF hs, of y "k x s"] by (simp add: f0)
qed

subsection \<open>Adding members and methods\<close>

lemma fold_addClassMethod:
  "fold (\<lambda>x. addClassMethod (g x)) xs (JavaDeclarationBlock k n a f s i an c b ms mts ns) =
     JavaDeclarationBlock k n a f s i an c b ms (mts @ map g xs) ns"
  by (induction xs arbitrary: mts) simp_all

lemma fold_addClassMember:
  "fold (\<lambda>x. addClassMember (nm x) (ty x) (vl x) (ta x) (ac x) (fl x)) xs
     (JavaDeclarationBlock k n a f s i an c b ms mts ns) =
     JavaDeclarationBlock k n a f s i an c b
       (ms @ map (\<lambda>x. \<lparr>cm_name = nm x, cm_type = ty x, cm_value = vl x,
                        cm_typeAnnotations = ta x, cm_access = ac x, cm_flags = fl x\<rparr>) xs)
       mts ns"
  by (induction xs arbitrary: ms) simp_all

subsection \<open>The step interfaces\<close>

lemma stepInterface_eq:
  assumes "i < length fs"
  shows "stepInterface e fs (fs ! i) i s =
     (Inr (JavaDeclarationBlock (Some ''interface'') (Some (getStepInterfaceName e (f_name (fs ! i))))
        (Some ''public'') False False [] [] None
        (Some (indent e
           (getStepInterfaceName e (if i + 1 < length fs then f_name (fs ! (i + 1)) else ''Build'')
              @ '' '' @ getStepFunctionName e (fs ! i) @ ''('' @ nativeTypeName e (fs ! i)
              @ '' '' @ getStepFunctionArgumentName e (fs ! i) @ '');'')))
        [] [] []),
      s\<lparr>additionalPackages := register e (fs ! i) (additionalPackages s)\<rparr>)"
proof (cases "i + 1 < length fs")
  case True
  then have "int (length fs) - 1 \<noteq> int i" by linarith
  with True show ?thesis
    by (simp add: stepInterface_def Let_def at_def newBlock_def getNativeType_eq)
next
  case False
  with assms have "int (length fs) - 1 = int i" by linarith
  with False show ?thesis
    by (simp add: stepInterface_def Let_def at_def newBlock_def getNativeType_eq)
qed

lemma buildInterfaceSetter_eq:
  "buildInterfaceSetter e field s =
     (getStepInterfaceName e ''Build'' @ '' '' @ getFieldName e field @ ''('' @ nativeTypeName e field
        @ '' '' @ getFieldName e field @ '');'',
      s\<lparr>additionalPackages := register e field (additionalPackages s)\<rparr>)"
  by (simp add: buildInterfaceSetter_def Let_def getNativeType_eq)

lemma generateStepBuilderInterfaces_fst:
  assumes "fs = filter (\<lambda>field. f_name field \<notin> set READ_ONLY_FIELDS)
                 (filter (\<lambda>field. \<not> f_isNullable field) (m_fields model))"
  shows "fst (generateStepBuilderInterfaces e model v) =
     Inr (map (\<lambda>i. JavaDeclarationBlock (Some ''interface'')
                 (Some (getStepInterfaceName e (f_name (fs ! i))))
                 (Some ''public'') False False [] [] None
                 (Some (indent e
                    (getStepInterfaceName e
                       (if i + 1 < length fs then f_name (fs ! (i + 1)) else ''Build'')
                     @ '' '' @ getStepFunctionName e (fs ! i) @ ''('' @ nativeTypeName e (fs ! i)
                     @ '' '' @ getStepFunctionArgumentName e (fs ! i) @ '');'')))
                 [] [] []) [0..<length fs]
          @ [JavaDeclarationBlock (Some ''interface'') (Some (getStepInterfaceName e ''Build''))
               (Some ''public'') False False [] [] None
               (Some (indentMultiline e (join nl
                  ([getModelName e model @ '' build();'',
                    getStepInterfaceName e ''Build'' @ '' id(String id) throws AmplifyException;'']
                   @ map (\<lambda>field. getStepInterfaceName e ''Build'' @ '' '' @ getFieldName e field
                           @ ''('' @ nativeTypeName e field @ '' '' @ getFieldName e field @ '');'')
                       (filter (\<lambda>field. f_isNullable field) (m_fields model)))) 1))
               [] [] []])"
proof -
  let ?blk = "\<lambda>i. JavaDeclarationBlock (Some ''interface'')
                 (Some (getStepInterfaceName e (f_name (fs ! i))))
                 (Some ''public'') False False [] [] None
                 (Some (indent e
                    (getStepInterfaceName e
                       (if i + 1 < length fs then f_name (fs ! (i + 1)) else ''Build'')
                     @ '' '' @ getStepFunctionName e (fs ! i) @ ''('' @ nativeTypeName e (fs ! i)
                     @ '' '' @ getStepFunctionArgumentName e (fs ! i) @ '');'')))
                 [] [] []"
  have m: "fst (mapIdxE (stepInterface e fs) 0 fs v) = Inr (map ?blk [0..<length fs])"
    by (rule mapIdxE_fst) (simp add: stepInterface_eq)
  obtain r v1 where r: "mapIdxE (stepInterface e fs) 0 fs v = (r, v1)"
    by (cases "mapIdxE (stepInterface e fs) 0 fs v")
  with m have r': "r = Inr (map ?blk [0..<length fs])" by simp
  have s: "\<And>xs s. fst (mapS (buildInterfaceSetter e) xs s) =
       map (\<lambda>field. getStepInterfaceName e ''Build'' @ '' '' @ getFieldName e field
              @ ''('' @ nativeTypeName e field @ '' '' @ getFieldName e field @ '');'') xs"
    by (rule mapS_fst) (simp add: buildInterfaceSetter_eq)
  show ?thesis
    unfolding generateStepBuilderInterfaces_def Let_def assms[symmetric]
    by (simp add: r r' s newBlock_def split_def)
qed

lemma generateStepBuilderInterfaces_snd:
  "snd (generateStepBuilderInterfaces e model v) =
     fold (\<lambda>field s. s\<lparr>additionalPackages := register e field (additionalPackages s)\<rparr>)
       (filter (\<lambda>field. f_name field \<notin> set READ_ONLY_FIELDS)
          (filter (\<lambda>field. \<not> f_isNullable field) (m_fields model))
        @ filter (\<lambda>field. f_isNullable field) (m_fields model)) v"
proof -
  define fs where "fs = filter (\<lambda>field. f_name field \<notin> set READ_ONLY_FIELDS)
                 (filter (\<lambda>field. \<not> f_isNullable field) (m_fields model))"
  let ?k = "\<lambda>field s. s\<lparr>additionalPackages := register e field (additionalPackages s)\<rparr>"
  have m: "fst (mapIdxE (stepInterface e fs) 0 fs v) \<noteq> Inl err" for err
    using generateStepBuilderInterfaces_fst[OF fs_def, of e v] mapIdxE_fst[of fs "stepInterface e fs" 0 _ v]
    by (simp add: stepInterface_eq)
  have m2: "snd (mapIdxE (stepInterface e fs) 0 fs v) = fold ?k fs v"
    by (rule mapIdxE_snd) (simp add: stepInterface_eq)
  have s: "\<And>xs s. snd (mapS (buildInterfaceSetter e) xs s) = fold ?k xs s"
    by (rule mapS_snd) (simp add: buildInterfaceSetter_eq)
  obtain r v1 where r: "mapIdxE (stepInterface e fs) 0 fs v = (r, v1)"
    by (cases "mapIdxE (stepInterface e fs) 0 fs v")
  from m r obtain ys where ys: "r = Inr ys" by (cases r) auto
  from m2 r have v1: "v1 = fold ?k fs v" by simp
  show ?thesis
    unfolding generateStepBuilderInterfaces_def Let_def fs_def[symmetric]
    by (simp add: r ys v1 s split_def)
qed

subsection \<open>The chain of step interfaces\<close>

text \<open>
  Claim C1.  For a model whose required fields, without the identity field \<^verbatim>\<open>id\<close>, are
  \<open>fs\<close> with at least one entry, \<^verbatim>\<open>generateStepBuilderInterfaces\<close> returns (it does not
  fault) one step interface per entry of \<open>fs\<close>, in order, followed by the terminal
  \<^verbatim>\<open>Build\<close> interface.  The step interface of field \<open>i\<close> is named after that field and its
  body is one method declaration: the method is named after field \<open>i\<close>, takes the field's
  value, and returns the step interface of field \<open>i + 1\<close>, or the \<^verbatim>\<open>Build\<close> interface when
  \<open>i\<close> is last.
\<close>

theorem step_interface_chain:
  assumes fs: "fs = filter (\<lambda>field. f_name field \<notin> set READ_ONLY_FIELDS)
                 (filter (\<lambda>field. \<not> f_isNullable field) (m_fields model))"
    and k: "1 \<le> length fs"
  shows "\<exists>interfaces builder.
     fst (generateStepBuilderInterfaces e model v) = Inr (interfaces @ [builder])
     \<and> length interfaces = length fs
     \<and> b_kind builder = Some ''interface''
     \<and> b_name builder = Some (getStepInterfaceName e ''Build'')
     \<and> (\<forall>i < length fs.
          b_kind (interfaces ! i) = Some ''interface''
          \<and> b_name (interfaces ! i) = Some (getStepInterfaceName e (f_name (fs ! i)))
          \<and> b_block (interfaces ! i) =
              Some (indent e
                ((if i + 1 < length fs then getStepInterfaceName e (f_name (fs ! (i + 1)))
                  else getStepInterfaceName e ''Build'')
                 @ '' '' @ getStepFunctionName e (fs ! i)
                 @ ''('' @ fst (getNativeType e (fs ! i) v) @ '' ''
                 @ getStepFunctionArgumentName e (fs ! i) @ '');''))
          \<and> b_members (interfaces ! i) = []
          \<and> b_methods (interfaces ! i) = []
          \<and> b_nested (interfaces ! i) = [])"
proof -
  let ?blk = "\<lambda>i. JavaDeclarationBlock (Some ''interface'')
                 (Some (getStepInterfaceName e (f_name (fs ! i))))
                 (Some ''public'') False False [] [] None
                 (Some (indent e
                    (getStepInterfaceName e
                       (if i + 1 < length fs then f_name (fs ! (i + 1)) else ''Build'')
                     @ '' '' @ getStepFunctionName e (fs ! i) @ ''('' @ nativeTypeName e (fs ! i)
                     @ '' '' @ getStepFunctionArgumentName e (fs ! i) @ '');'')))
                 [] [] []"
  obtain builder where
    r: "fst (generateStepBuilderInterfaces e model v) = Inr (map ?blk [0..<length fs] @ [builder])"
    and b: "b_kind builder = Some ''interface''" "b_name builder = Some (getStepInterfaceName e ''Build'')"
    using generateStepBuilderInterfaces_fst[OF fs, of e v] by simp
  have each: "\<forall>i < length fs.
          b_kind (map ?blk [0..<length fs] ! i) = Some ''interface''
          \<and> b_name (map ?blk [0..<length fs] ! i) = Some (getStepInterfaceName e (f_name (fs ! i)))
          \<and> b_block (map ?blk [0..<length fs] ! i) =
              Some (indent e
                ((if i + 1 < length fs then getStepInterfaceName e (f_name (fs ! (i + 1)))
                  else getStepInterfaceName e ''Build'')
                 @ '' '' @ getStepFunctionName e (fs ! i)
                 @ ''('' @ fst (getNativeType e (fs ! i) v) @ '' ''
                 @ getStepFunctionArgumentName e (fs ! i) @ '');''))
          \<and> b_members (map ?blk [0..<length fs] ! i) = []
          \<and> b_methods (map ?blk [0..<length fs] ! i) = []
          \<and> b_nested (map ?blk [0..<length fs] ! i) = []"
    by (simp add: getNativeType_eq)
  show ?thesis
    using r b each by (intro exI[of _ "map ?blk [0..<length fs]"] exI[of _ builder]) simp
qed

theorem step_interface_chain_witness:
  "\<exists>interfaces builder.
     fst (generateStepBuilderInterfaces exampleCollaborators exampleComment exampleVisitor)
       = Inr (interfaces @ [builder])
     \<and> length interfaces = 2
     \<and> b_name builder = Some ''IBuildStep''
     \<and> b_name (interfaces ! 0) = Some ''IPostIdStep''
     \<and> b_block (interfaces ! 0) = Some ''  ITextStep postId(String postId);''
     \<and> b_name (interfaces ! 1) = Some ''ITextStep''
     \<and> b_block (interfaces ! 1) = Some ''  IBuildStep text(String text);''"
proof -
  let ?fs = "[\<lparr>f_name = ''postId'', f_type = ''ID'', f_isNullable = False, f_directives = []\<rparr>,
              \<lparr>f_name = ''text'', f_type = ''String'', f_isNullable = False, f_directives = []\<rparr>]"
  have fs: "?fs = filter (\<lambda>field. f_name field \<notin> set READ_ONLY_FIELDS)
                 (filter (\<lambda>field. \<not> f_isNullable field) (m_fields exampleComment))"
    by (simp add: exampleComment_def READ_ONLY_FIELDS_def)
  have k: "1 \<le> length ?fs" by simp
  obtain interfaces builder where
    r: "fst (generateStepBuilderInterfaces exampleCollaborators exampleComment exampleVisitor)
          = Inr (interfaces @ [builder])"
    and l: "length interfaces = length ?fs"
    and b: "b_name builder = Some (getStepInterfaceName exampleCollaborators ''Build'')"
    and a: "\<forall>i < length ?fs.
          b_kind (interfaces ! i) = Some ''interface''
          \<and> b_name (interfaces ! i) = Some (getStepInterfaceName exampleCollaborators (f_name (?fs ! i)))
          \<and> b_block (interfaces ! i) =
              Some (indent exampleCollaborators
                ((if i + 1 < length ?fs then getStepInterfaceName exampleCollaborators (f_name (?fs ! (i + 1)))
                  else getStepInterfaceName exampleCollaborators ''Build'')
                 @ '' '' @ getStepFunctionName exampleCollaborators (?fs ! i)
                 @ ''('' @ fst (getNativeType exampleCollaborators (?fs ! i) exampleVisitor) @ '' ''
                 @ getStepFunctionArgumentName exampleCollaborators (?fs ! i) @ '');''))
          \<and> b_members (interfaces ! i) = []
          \<and> b_methods (interfaces ! i) = []
          \<and> b_nested (interfaces ! i) = []"
    using step_interface_chain[OF fs k, of exampleCollaborators exampleVisitor] by blast
  have a0: "b_name (interfaces ! 0) = Some ''IPostIdStep''
      \<and> b_block (interfaces ! 0) = Some ''  ITextStep postId(String postId);''"
    using a[rule_format, of 0]
    by (simp add: getStepInterfaceName_def getStepFunctionName_def getStepFunctionArgumentName_def
        exampleCollaborators_def upperFirst_def getNativeType_def exampleNativeType_def)
  have a1: "b_name (interfaces ! 1) = Some ''ITextStep''
      \<and> b_block (interfaces ! 1) = Some ''  IBuildStep text(String text);''"
    using a[rule_format, of 1]
    by (simp add: getStepInterfaceName_def getStepFunctionName_def getStepFunctionArgumentName_def
        exampleCollaborators_def upperFirst_def getNativeType_def exampleNativeType_def)
  have b': "b_name builder = Some ''IBuildStep''"
    using b by (simp add: getStepInterfaceName_def exampleCollaborators_def upperFirst_def)
  show ?thesis using r l a0 a1 b' by auto
qed

subsection \<open>The builder class\<close>

lemma builderSlot_eq:
  "builderSlot e field b s =
     (addClassMember (getFieldName e field) (nativeTypeName e field) [] None ''private'' [] b,
      s\<lparr>additionalPackages := register e field (additionalPackages s)\<rparr>)"
  by (simp add: builderSlot_def Let_def getNativeType_eq)

lemma nullableMethod_eq:
  "nullableMethod e field b s =
     (addClassMethod
        (classMethod (getStepFunctionName e field) (Some (getStepInterfaceName e ''Build''))
           (indentMultiline e (join nl
              [''this.'' @ getFieldName e field @ '' = '' @ getStepFunctionArgumentName e field @ '';'',
               ''return this;'']) 1)
           (Some [(getStepFunctionArgumentName e field, nativeTypeName e field)]) (Some [])
           ''public'' [] [''Override''] [] None) b,
      s\<lparr>additionalPackages := register e field (additionalPackages s)\<rparr>)"
  by (simp add: nullableMethod_def Let_def getNativeType_eq)

lemma stepMethod_eq:
  assumes "i < length fs"
  shows "stepMethod e fs (fs ! i) i b s =
     (Inr (addClassMethod
        (classMethod (getStepFunctionName e (fs ! i))
           (Some (getStepInterfaceName e
              (if i + 1 < length fs then f_name (fs ! (i + 1)) else ''Build'')))
           (indentMultiline e (join nl
              [''Objects.requireNonNull('' @ getFieldName e (fs ! i) @ '');'',
               ''this.'' @ getFieldName e (fs ! i) @ '' = ''
                 @ getStepFunctionArgumentName e (fs ! i) @ '';'',
               ''return this;'']) 1)
           (Some [(getStepFunctionArgumentName e (fs ! i), nativeTypeName e (fs ! i))]) (Some [])
           ''public'' [] [''Override''] [] None) b),
      s\<lparr>additionalPackages := register e (fs ! i) (additionalPackages s)\<rparr>)"
proof (cases "i + 1 < length fs")
  case True
  then have "int i \<noteq> int (length fs) - 1" by linarith
  with True show ?thesis
    by (simp add: stepMethod_def Let_def at_def getNativeType_eq)
next
  case False
  with assms have "int i = int (length fs) - 1" by linarith
  with False show ?thesis
    by (simp add: stepMethod_def Let_def at_def getNativeType_eq)
qed

text \<open>The builder class, stage by stage.\<close>

lemma generateBuilderClass_stages:
  assumes nn: "nonNullableFields = filter (\<lambda>field. \<not> f_isNullable field) (m_fields model)"
    and nu: "nullableFields = filter (\<lambda>field. f_isNullable field) (m_fields model)"
    and fs: "fs = filter (\<lambda>field. f_name field \<notin> set READ_ONLY_FIELDS) nonNullableFields"
    and s1: "forEachS (builderSlot e) (nonNullableFields @ nullableFields)
               (implements (map (\<lambda>field. getStepInterfaceName e (f_name field)) fs
                  @ [getStepInterfaceName e ''Build''])
                 (withName ''Builder'' (asKind ''class'' (static (access ''public'' newBlock))))) v
             = (b1, v1)"
    and s2: "propName (at fs 0) = Inr firstName"
    and s3: "forEachIdxE (stepMethod e fs) 0 fs
               (addClassMethod
                 (classMethod ''build'' (Some (getModelName e model))
                    (indentMultiline e (join nl (buildImplementation e model)) 1) None (Some [])
                    ''public'' [] [''Override''] [] None)
                 (addClassMethod
                   (classMethod ''builder'' (Some (getStepInterfaceName e firstName))
                      (indentMultiline e ''return new Builder();'' 1) (Some []) (Some []) ''public''
                      [''static''] [] [] None) b1)) v1
             = (Inr b4, v2)"
    and s4: "forEachS (nullableMethod e) nullableFields b4 v2 = (b5, v3)"
  shows "generateBuilderClass e model classDeclaration v =
     (Inr (nestedClass
        (addClassMethod
           (classMethod ''id'' (Some (getStepInterfaceName e ''Build''))
              (indentMultiline e (idBuildStepBody e) 1) (Some [(''id'', ''String'')])
              (Some []) ''public'' [] [] [''AmplifyException''] (Some (idComment e))) b5)
        classDeclaration), v3)"
  unfolding generateBuilderClass_def Let_def nn[symmetric] nu[symmetric] fs[symmetric]
  by (simp only: s1 s2 s3 s4 prod.case sum.case)


text \<open>The builder class in closed form, for a model with at least one step field.\<close>

lemma generateBuilderClass_fst:
  assumes nn: "nonNullableFields = filter (\<lambda>field. \<not> f_isNullable field) (m_fields model)"
    and nu: "nullableFields = filter (\<lambda>field. f_isNullable field) (m_fields model)"
    and fs: "fs = filter (\<lambda>field. f_name field \<notin> set READ_ONLY_FIELDS) nonNullableFields"
    and ne: "fs \<noteq> []"
  shows "fst (generateBuilderClass e model classDeclaration v) =
     Inr (nestedClass
       (JavaDeclarationBlock (Some ''class'') (Some ''Builder'') (Some ''public'') False True
          (map (\<lambda>field. getStepInterfaceName e (f_name field)) fs @ [getStepInterfaceName e ''Build''])
          [] None None
          (map (\<lambda>field. \<lparr>cm_name = getFieldName e field, cm_type = nativeTypeName e field,
                  cm_value = [], cm_typeAnnotations = None, cm_access = ''private'',
                  cm_flags = []\<rparr>) (nonNullableFields @ nullableFields))
          ([classMethod ''builder'' (Some (getStepInterfaceName e (f_name (fs ! 0))))
              (indentMultiline e ''return new Builder();'' 1) (Some []) (Some []) ''public''
              [''static''] [] [] None,
            classMethod ''build'' (Some (getModelName e model))
              (indentMultiline e (join nl (buildImplementation e model)) 1) None (Some [])
              ''public'' [] [''Override''] [] None]
           @ map (\<lambda>i. classMethod (getStepFunctionName e (fs ! i))
                    (Some (getStepInterfaceName e
                       (if i + 1 < length fs then f_name (fs ! (i + 1)) else ''Build'')))
                    (indentMultiline e (join nl
                       [''Objects.requireNonNull('' @ getFieldName e (fs ! i) @ '');'',
                        ''this.'' @ getFieldName e (fs ! i) @ '' = ''
                          @ getStepFunctionArgumentName e (fs ! i) @ '';'',
                        ''return this;'']) 1)
                    (Some [(getStepFunctionArgumentName e (fs ! i), nativeTypeName e (fs ! i))])
                    (Some []) ''public'' [] [''Override''] [] None) [0..<length fs]
           @ map (\<lambda>field. classMethod (getStepFunctionName e field)
                    (Some (getStepInterfaceName e ''Build''))
                    (indentMultiline e (join nl
                       [''this.'' @ getFieldName e field @ '' = ''
                          @ getStepFunctionArgumentName e field @ '';'',
                        ''return this;'']) 1)
                    (Some [(getStepFunctionArgumentName e field, nativeTypeName e field)])
                    (Some []) ''public'' [] [''Override''] [] None) nullableFields
           @ [classMethod ''id'' (Some (getStepInterfaceName e ''Build''))
                (indentMultiline e (idBuildStepBody e) 1) (Some [(''id'', ''String'')])
                (Some []) ''public'' [] [] [''AmplifyException''] (Some (idComment e))])
          [])
       classDeclaration)"
proof -
  let ?stepM = "\<lambda>i. classMethod (getStepFunctionName e (fs ! i))
                    (Some (getStepInterfaceName e
                       (if i + 1 < length fs then f_name (fs ! (i + 1)) else ''Build'')))
                    (indentMultiline e (join nl
                       [''Objects.requireNonNull('' @ getFieldName e (fs ! i) @ '');'',
                        ''this.'' @ getFieldName e (fs ! i) @ '' = ''
                          @ getStepFunctionArgumentName e (fs ! i) @ '';'',
                        ''return this;'']) 1)
                    (Some [(getStepFunctionArgumentName e (fs ! i), nativeTypeName e (fs ! i))])
                    (Some []) ''public'' [] [''Override''] [] None"
  let ?nullM = "\<lambda>field. classMethod (getStepFunctionName e field)
                    (Some (getStepInterfaceName e ''Build''))
                    (indentMultiline e (join nl
                       [''this.'' @ getFieldName e field @ '' = ''
                          @ getStepFunctionArgumentName e field @ '';'',
                        ''return this;'']) 1)
                    (Some [(getStepFunctionArgumentName e field, nativeTypeName e field)])
                    (Some []) ''public'' [] [''Override''] [] None"
  let ?B0 = "implements (map (\<lambda>field. getStepInterfaceName e (f_name field)) fs
                  @ [getStepInterfaceName e ''Build''])
                 (withName ''Builder'' (asKind ''class'' (static (access ''public'' newBlock))))"
  let ?builderM = "classMethod ''builder'' (Some (getStepInterfaceName e (f_name (fs ! 0))))
                      (indentMultiline e ''return new Builder();'' 1) (Some []) (Some []) ''public''
                      [''static''] [] [] None"
  let ?buildM = "classMethod ''build'' (Some (getModelName e model))
                    (indentMultiline e (join nl (buildImplementation e model)) 1) None (Some [])
                    ''public'' [] [''Override''] [] None"
  have B0: "?B0 = JavaDeclarationBlock (Some ''class'') (Some ''Builder'') (Some ''public'') False True
          (map (\<lambda>field. getStepInterfaceName e (f_name field)) fs @ [getStepInterfaceName e ''Build''])
          [] None None [] [] []"
    by (simp add: newBlock_def)
  obtain b1 v1 where s1: "forEachS (builderSlot e) (nonNullableFields @ nullableFields) ?B0 v = (b1, v1)"
    by (cases "forEachS (builderSlot e) (nonNullableFields @ nullableFields) ?B0 v")
  have "fst (forEachS (builderSlot e) (nonNullableFields @ nullableFields) ?B0 v) =
      fold (\<lambda>field. addClassMember (getFieldName e field) (nativeTypeName e field) [] None
              ''private'' []) (nonNullableFields @ nullableFields) ?B0"
    by (rule forEachS_fst) (simp add: builderSlot_eq)
  with s1 have b1: "b1 = JavaDeclarationBlock (Some ''class'') (Some ''Builder'') (Some ''public'') False True
          (map (\<lambda>field. getStepInterfaceName e (f_name field)) fs @ [getStepInterfaceName e ''Build''])
          [] None None
          (map (\<lambda>field. \<lparr>cm_name = getFieldName e field, cm_type = nativeTypeName e field,
                  cm_value = [], cm_typeAnnotations = None, cm_access = ''private'',
                  cm_flags = []\<rparr>) (nonNullableFields @ nullableFields)) [] []"
    by (simp only: B0 fold_addClassMember fst_conv append_Nil)
  from ne have s2: "propName (at fs 0) = Inr (f_name (fs ! 0))"
    by (simp add: at_def)
  let ?b3 = "addClassMethod ?buildM (addClassMethod ?builderM b1)"
  obtain r4 v2 where s3': "forEachIdxE (stepMethod e fs) 0 fs ?b3 v1 = (r4, v2)"
    by (cases "forEachIdxE (stepMethod e fs) 0 fs ?b3 v1")
  have "fst (forEachIdxE (stepMethod e fs) 0 fs ?b3 v1) =
      Inr (fold (\<lambda>i. addClassMethod (?stepM i)) [0..<length fs] ?b3)"
    by (rule forEachIdxE_fst) (simp add: stepMethod_eq)
  with s3' have r4: "r4 = Inr (fold (\<lambda>i. addClassMethod (?stepM i)) [0..<length fs] ?b3)"
    by simp
  let ?b4 = "fold (\<lambda>i. addClassMethod (?stepM i)) [0..<length fs] ?b3"
  from s3' r4 have s3: "forEachIdxE (stepMethod e fs) 0 fs ?b3 v1 = (Inr ?b4, v2)" by simp
  obtain b5 v3 where s4: "forEachS (nullableMethod e) nullableFields ?b4 v2 = (b5, v3)"
    by (cases "forEachS (nullableMethod e) nullableFields ?b4 v2")
  have "fst (forEachS (nullableMethod e) nullableFields ?b4 v2) =
      fold (\<lambda>field. addClassMethod (?nullM field)) nullableFields ?b4"
    by (rule forEachS_fst) (simp add: nullableMethod_eq)
  with s4 have b5: "b5 = fold (\<lambda>field. addClassMethod (?nullM field)) nullableFields ?b4" by simp
  have "generateBuilderClass e model classDeclaration v =
     (Inr (nestedClass
        (addClassMethod
           (classMethod ''id'' (Some (getStepInterfaceName e ''Build''))
              (indentMultiline e (idBuildStepBody e) 1) (Some [(''id'', ''String'')])
              (Some []) ''public'' [] [] [''AmplifyException''] (Some (idComment e))) b5)
        classDeclaration), v3)"
    by (rule generateBuilderClass_stages[OF nn nu fs s1 s2 s3 s4])
  then show ?thesis
    by (simp only: fst_conv b5 b1 addClassMethod.simps fold_addClassMethod append_Nil append_Cons
        append_assoc)
qed

lemma generateBuilderClass_no_step_fields:
  assumes "filter (\<lambda>field. f_name field \<notin> set READ_ONLY_FIELDS)
             (filter (\<lambda>field. \<not> f_isNullable field) (m_fields model)) = []"
  shows "fst (generateBuilderClass e model classDeclaration v) =
     Inl (TypeError ''Cannot read property 'name' of undefined'')"
proof -
  have s2: "propName (at ([] :: CodeGenField list) 0)
      = Inl (TypeError ''Cannot read property 'name' of undefined'')"
    by (simp add: at_def)
  show ?thesis
    unfolding generateBuilderClass_def Let_def assms
    by (simp only: s2 split_def sum.case fst_conv)
qed

lemma b_nested_nestedClass: "b_nested (nestedClass b cd) = b_nested cd @ [b]"
  by (cases cd) simp

lemma b_methods_addClassMethod: "b_methods (addClassMethod m b) = b_methods b @ [m]"
  by (cases b) simp

lemma builderOf_nestedClass: "builderOf (Inr (nestedClass b cd), v) = Some b"
  by (simp add: builderOf_def b_nested_nestedClass)

lemma builderOf_fst: "fst r = Inr (nestedClass b cd) \<Longrightarrow> builderOf r = Some b"
  by (simp add: builderOf_def b_nested_nestedClass)

lemma generateConstructor_fst:
  "fst (generateConstructor e model b v) =
     addClassMethod
       (classMethod (getModelName e model) None
          (join nl (map (\<lambda>field. ''this.'' @ getFieldName e field @ '' = '' @ getFieldName e field @ '';'')
             (m_fields model)))
          (Some (map (\<lambda>field. (getFieldName e field, nativeTypeName e field)) (m_fields model)))
          None ''private'' [] [] [] None) b"
proof -
  have "\<And>xs s. fst (mapS (constructorArgument e) xs s) =
      map (\<lambda>field. (getFieldName e field, nativeTypeName e field)) xs"
    by (rule mapS_fst) (simp add: constructorArgument_def getNativeType_eq)
  then show ?thesis
    by (simp add: generateConstructor_def Let_def split_def)
qed

subsection \<open>A model without required fields\<close>

lemma step_interfaces_without_step_fields:
  "fst (generateStepBuilderInterfaces exampleCollaborators exampleTodo exampleVisitor) =
     Inr [JavaDeclarationBlock (Some ''interface'') (Some ''IBuildStep'') (Some ''public'') False False
            [] [] None
            (Some (''  Todo build();'' @ nl @ ''IBuildStep id(String id) throws AmplifyException;'' @ nl
               @ ''IBuildStep name(String name);''))
            [] [] []]"
proof -
  have fs: "[] = filter (\<lambda>field. f_name field \<notin> set READ_ONLY_FIELDS)
                 (filter (\<lambda>field. \<not> f_isNullable field) (m_fields exampleTodo))"
    by (simp add: exampleTodo_def READ_ONLY_FIELDS_def)
  show ?thesis
    unfolding generateStepBuilderInterfaces_fst[OF fs]
    by (simp add: exampleTodo_def exampleCollaborators_def getStepInterfaceName_def upperFirst_def
        nativeTypeName_def exampleNativeType_def)
qed

text \<open>
  Claim C3 says that for a model with no step field (every field nullable or named
  \<^verbatim>\<open>id\<close>) \<^verbatim>\<open>generateBuilderClass\<close> still produces a builder whose entry method returns the
  \<^verbatim>\<open>Build\<close> interface, and does not fault.  The code reads \<^verbatim>\<open>stepFields[0].name\<close> for the
  entry method's return type without testing the list: on the model \<^verbatim>\<open>Todo\<close> with the
  fields \<^verbatim>\<open>id: ID!\<close> and \<^verbatim>\<open>name: String\<close> it raises a \<^verbatim>\<open>TypeError\<close> and no builder is
  produced.  (\<^verbatim>\<open>generateStepBuilderInterfaces\<close> handles the same model: it returns the
  \<^verbatim>\<open>Build\<close> interface alone.)
\<close>

theorem builder_faults_without_step_fields:
  "fst (generateBuilderClass exampleCollaborators exampleTodo newBlock exampleVisitor) =
     Inl (TypeError ''Cannot read property 'name' of undefined'')"
  by (rule generateBuilderClass_no_step_fields)
     (simp add: exampleTodo_def READ_ONLY_FIELDS_def)

subsection \<open>Field order in the generated members\<close>

text \<open>
  Claim C2, as amended.  For a model with at least one step field (so that the builder is
  generated): the constructor takes the fields as positional arguments in declared order;
  \<^verbatim>\<open>equals\<close> compares the fields' getters and \<^verbatim>\<open>hashCode\<close> appends them in declared
  order; the private slots of the builder are declared for the non-nullable fields in
  declared order and then for the nullable fields in declared order, which is the declared
  order only when no nullable field is declared before a non-nullable one.
\<close>

theorem member_orders:
  assumes "filter (\<lambda>field. f_name field \<notin> set READ_ONLY_FIELDS)
             (filter (\<lambda>field. \<not> f_isNullable field) (m_fields model)) \<noteq> []"
  shows "(\<exists>ctor. b_methods (fst (generateConstructor e model declarationsBlock v))
              = b_methods declarationsBlock @ [ctor]
            \<and> mt_args ctor
              = Some (map (\<lambda>field. (getFieldName e field, fst (getNativeType e field v)))
                   (m_fields model)))
     \<and> (\<exists>builder. builderOf (generateBuilderClass e model classDeclaration v) = Some builder
            \<and> map cm_name (b_members builder)
              = map (getFieldName e)
                  (filter (\<lambda>field. \<not> f_isNullable field) (m_fields model)
                   @ filter (\<lambda>field. f_isNullable field) (m_fields model)))
     \<and> (\<exists>equals. b_methods (generateEqualsMethod e model declarationsBlock)
              = b_methods declarationsBlock @ [equals]
            \<and> mt_name equals = ''equals''
            \<and> mt_implementation equals
              = indentMultiline e (join nl
                  [''if (this == obj) {'',
                   ''  return true;'',
                   ''} else if(obj == null || getClass() != obj.getClass()) {'',
                   ''  return false;'',
                   ''} else {'',
                   getModelName e model @ '' '' @ camelCase e (m_name model) @ '' = (''
                     @ getModelName e model @ '') obj;'',
                   ''return '' @ trimStart (indentMultiline e (join ('' &&'' @ nl)
                     (map (\<lambda>field. ''ObjectsCompat.equals('' @ getFieldGetterName e field @ ''(), ''
                             @ camelCase e (m_name model) @ ''.'' @ getFieldGetterName e field @ ''())'')
                        (m_fields model))) 4) @ '';'',
                   ''}'']) 1)
     \<and> (\<exists>hashCode. b_methods (generateHashCodeMethod e model declarationsBlock)
              = b_methods declarationsBlock @ [hashCode]
            \<and> mt_name hashCode = ''hashCode''
            \<and> mt_implementation hashCode
              = trimStart (indentMultiline e (join nl
                  ([''return new StringBuilder()'']
                   @ map (\<lambda>field. ''.append('' @ getFieldGetterName e field @ ''())'') (m_fields model)
                   @ [''.hashCode();''])) 1))"
proof (intro conjI)
  show "\<exists>ctor. b_methods (fst (generateConstructor e model declarationsBlock v))
              = b_methods declarationsBlock @ [ctor]
            \<and> mt_args ctor
              = Some (map (\<lambda>field. (getFieldName e field, fst (getNativeType e field v)))
                   (m_fields model))"
    by (simp add: generateConstructor_fst b_methods_addClassMethod classMethod_def getNativeType_eq)
next
  show "\<exists>builder. builderOf (generateBuilderClass e model classDeclaration v) = Some builder
            \<and> map cm_name (b_members builder)
              = map (getFieldName e)
                  (filter (\<lambda>field. \<not> f_isNullable field) (m_fields model)
                   @ filter (\<lambda>field. f_isNullable field) (m_fields model))"
    using builderOf_fst[OF generateBuilderClass_fst[OF refl refl refl assms, of e classDeclaration v]]
    by (simp add: comp_def)
next
  show "\<exists>equals. b_methods (generateEqualsMethod e model declarationsBlock)
              = b_methods declarationsBlock @ [equals]
            \<and> mt_name equals = ''equals''
            \<and> mt_implementation equals
              = indentMultiline e (join nl
                  [''if (this == obj) {'',
                   ''  return true;'',
                   ''} else if(obj == null || getClass() != obj.getClass()) {'',
                   ''  return false;'',
                   ''} else {'',
                   getModelName e model @ '' '' @ camelCase e (m_name model) @ '' = (''
                     @ getModelName e model @ '') obj;'',
                   ''return '' @ trimStart (indentMultiline e (join ('' &&'' @ nl)
                     (map (\<lambda>field. ''ObjectsCompat.equals('' @ getFieldGetterName e field @ ''(), ''
                             @ camelCase e (m_name model) @ ''.'' @ getFieldGetterName e field @ ''())'')
                        (m_fields model))) 4) @ '';'',
                   ''}'']) 1"
    by (simp add: generateEqualsMethod_def equalsPropChecks_def Let_def b_methods_addClassMethod
        classMethod_def)
next
  show "\<exists>hashCode. b_methods (generateHashCodeMethod e model declarationsBlock)
              = b_methods declarationsBlock @ [hashCode]
            \<and> mt_name hashCode = ''hashCode''
            \<and> mt_implementation hashCode
              = trimStart (indentMultiline e (join nl
                  ([''return new StringBuilder()'']
                   @ map (\<lambda>field. ''.append('' @ getFieldGetterName e field @ ''())'') (m_fields model)
                   @ [''.hashCode();''])) 1)"
    by (simp add: generateHashCodeMethod_def hashCodeLines_def Let_def b_methods_addClassMethod
        classMethod_def)
qed

lemma examplePost_step_fields:
  "filter (\<lambda>field. f_name field \<notin> set READ_ONLY_FIELDS)
     (filter (\<lambda>field. \<not> f_isNullable field) (m_fields examplePost))
   = [\<lparr>f_name = ''title'', f_type = ''String'', f_isNullable = False, f_directives = []\<rparr>]"
  by (simp add: examplePost_def READ_ONLY_FIELDS_def)

theorem member_orders_witness:
  "(\<exists>ctor. b_methods (fst (generateConstructor exampleCollaborators examplePost newBlock exampleVisitor))
              = [ctor]
            \<and> mt_args ctor = Some [(''id'', ''String''), (''content'', ''String''), (''title'', ''String'')])
   \<and> (\<exists>builder. builderOf (generateBuilderClass exampleCollaborators examplePost newBlock exampleVisitor)
              = Some builder
            \<and> map cm_name (b_members builder) = [''id'', ''title'', ''content''])"
proof -
  have ne: "filter (\<lambda>field. f_name field \<notin> set READ_ONLY_FIELDS)
             (filter (\<lambda>field. \<not> f_isNullable field) (m_fields examplePost)) \<noteq> []"
    unfolding examplePost_step_fields by simp
  have m: "b_methods newBlock = []" by (simp add: newBlock_def)
  show ?thesis
    using member_orders[OF ne, of exampleCollaborators newBlock exampleVisitor newBlock]
    by (simp add: m examplePost_def exampleCollaborators_def getNativeType_def exampleNativeType_def)
qed

text \<open>
  Claim C2 as stated fails: in \<^verbatim>\<open>Post\<close> the nullable \<^verbatim>\<open>content\<close> is declared before the
  required \<^verbatim>\<open>title\<close>, and the builder declares the slot of \<^verbatim>\<open>title\<close> first.
\<close>

theorem builder_slots_follow_the_partition:
  "map_option (\<lambda>builder. map cm_name (b_members builder))
     (builderOf (generateBuilderClass exampleCollaborators examplePost newBlock exampleVisitor))
     = Some [''id'', ''title'', ''content'']
   \<and> map (getFieldName exampleCollaborators) (m_fields examplePost) = [''id'', ''content'', ''title'']
   \<and> map_option (\<lambda>builder. map cm_name (b_members builder))
     (builderOf (generateBuilderClass exampleCollaborators examplePost newBlock exampleVisitor))
     \<noteq> Some (map (getFieldName exampleCollaborators) (m_fields examplePost))"
proof -
  have ne: "filter (\<lambda>field. f_name field \<notin> set READ_ONLY_FIELDS)
             (filter (\<lambda>field. \<not> f_isNullable field) (m_fields examplePost)) \<noteq> []"
    unfolding examplePost_step_fields by simp
  have a: "map_option (\<lambda>builder. map cm_name (b_members builder))
     (builderOf (generateBuilderClass exampleCollaborators examplePost newBlock exampleVisitor))
     = Some [''id'', ''title'', ''content'']"
    using builderOf_fst[OF generateBuilderClass_fst[OF refl refl refl ne,
          of exampleCollaborators newBlock exampleVisitor]]
    by (simp add: comp_def examplePost_def exampleCollaborators_def)
  have b: "map (getFieldName exampleCollaborators) (m_fields examplePost) = [''id'', ''content'', ''title'']"
    by (simp add: examplePost_def exampleCollaborators_def)
  show ?thesis unfolding a b by simp
qed

subsection \<open>Connection annotations\<close>

lemma concat_map_if: "concat (map (\<lambda>x. if P x then [g x] else []) xs) = map g (filter P xs)"
  by (induction xs) simp_all

lemma connectionArgs_form:
  "connectionArgs args =
     map (\<lambda>k. k @ '' = \"'' @ toTemplateString (map_of args k) @ ''\"'')
       (filter (\<lambda>k. k \<in> set [''name'', ''keyField'', ''sortField'', ''keyName'']) (map fst args))
     @ (if truthy (map_of args ''limit'')
        then [''limit = '' @ toTemplateString (map_of args ''limit'')] else [])
     @ (case map_of args ''fields'' of
          Some (JSArr fs) \<Rightarrow> [''fields = {{'' @ join '', '' (map (\<lambda>f. ''\"'' @ f @ ''\"'') fs) @ ''}'']
        | _ \<Rightarrow> [])"
  unfolding connectionArgs_def concat_map_if
  by (cases "map_of args ''fields''" rule: isArray.cases) simp_all

lemma key_prefix_distinct:
  assumes "k \<in> set [''name'', ''keyField'', ''sortField'', ''keyName'']"
    and "k' \<in> set [''name'', ''keyField'', ''sortField'', ''keyName'']"
  shows "prefix (k @ '' = \"'') (k' @ '' = \"'' @ rest) \<longleftrightarrow> k = k'"
  using assms by auto

lemma key_prefix_other:
  assumes "k \<in> set [''name'', ''keyField'', ''sortField'', ''keyName'']"
  shows "\<not> prefix (k @ '' = \"'') (''limit = '' @ rest)"
    and "\<not> prefix (k @ '' = \"'') (''fields = {{'' @ rest)"
    and "\<not> prefix ''limit = '' (k @ '' = \"'' @ rest)"
    and "\<not> prefix ''fields = '' (k @ '' = \"'' @ rest)"
  using assms by auto

lemma fields_part:
  "(\<exists>a \<in> set (case v of
          Some (JSArr fs) \<Rightarrow> [''fields = {{'' @ join '', '' (map (\<lambda>f. ''\"'' @ f @ ''\"'') fs) @ ''}'']
        | _ \<Rightarrow> []). prefix p a)
   \<longleftrightarrow> (\<exists>fs. v = Some (JSArr fs)
          \<and> prefix p (''fields = {{'' @ join '', '' (map (\<lambda>f. ''\"'' @ f @ ''\"'') fs) @ ''}''))"
  by (cases v rule: isArray.cases) (simp_all del: append.simps)

lemma isArray_iff: "isArray v \<longleftrightarrow> (\<exists>fs. v = Some (JSArr fs))"
  by (cases v rule: isArray.cases) simp_all

lemma connection_key_iff:
  assumes k: "k \<in> set [''name'', ''keyField'', ''sortField'', ''keyName'']"
  shows "(\<exists>a \<in> set (connectionArgs args). prefix (k @ '' = \"'') a) \<longleftrightarrow> k \<in> set (map fst args)"
proof -
  let ?K = "[''name'', ''keyField'', ''sortField'', ''keyName'']"
  let ?X = "map (\<lambda>k. k @ '' = \"'' @ toTemplateString (map_of args k) @ ''\"'')
       (filter (\<lambda>k. k \<in> set ?K) (map fst args))"
  have x: "(\<exists>a \<in> set ?X. prefix (k @ '' = \"'') a) \<longleftrightarrow> k \<in> set (map fst args)"
  proof
    assume "\<exists>a \<in> set ?X. prefix (k @ '' = \"'') a"
    then obtain k' where k': "k' \<in> set (map fst args)" "k' \<in> set ?K"
      and p: "prefix (k @ '' = \"'') (k' @ '' = \"'' @ toTemplateString (map_of args k') @ ''\"'')"
      by (auto simp del: append.simps set_simps)
    from key_prefix_distinct[OF k k'(2)] p have "k = k'" by blast
    with k' show "k \<in> set (map fst args)" by simp
  next
    assume "k \<in> set (map fst args)"
    with k have "k @ '' = \"'' @ toTemplateString (map_of args k) @ ''\"'' \<in> set ?X"
      by (auto simp del: append.simps set_simps)
    moreover have "prefix (k @ '' = \"'') (k @ '' = \"'' @ toTemplateString (map_of args k) @ ''\"'')"
      by simp
    ultimately show "\<exists>a \<in> set ?X. prefix (k @ '' = \"'') a" by blast
  qed
  have y: "\<not> (\<exists>a \<in> set (if truthy (map_of args ''limit'')
        then [''limit = '' @ toTemplateString (map_of args ''limit'')] else []).
        prefix (k @ '' = \"'') a)"
    using key_prefix_other(1)[OF k] by (simp del: append.simps)
  have z: "\<not> (\<exists>a \<in> set (case map_of args ''fields'' of
          Some (JSArr fs) \<Rightarrow> [''fields = {{'' @ join '', '' (map (\<lambda>f. ''\"'' @ f @ ''\"'') fs) @ ''}'']
        | _ \<Rightarrow> []). prefix (k @ '' = \"'') a)"
    unfolding fields_part using key_prefix_other(2)[OF k] by blast
  show ?thesis
    unfolding connectionArgs_form set_append bex_Un using x y z by blast
qed

lemma connection_limit_iff:
  "(\<exists>a \<in> set (connectionArgs args). prefix ''limit = '' a) \<longleftrightarrow> truthy (map_of args ''limit'')"
proof -
  let ?K = "[''name'', ''keyField'', ''sortField'', ''keyName'']"
  let ?X = "map (\<lambda>k. k @ '' = \"'' @ toTemplateString (map_of args k) @ ''\"'')
       (filter (\<lambda>k. k \<in> set ?K) (map fst args))"
  have x: "\<not> (\<exists>a \<in> set ?X. prefix ''limit = '' a)"
  proof
    assume "\<exists>a \<in> set ?X. prefix ''limit = '' a"
    then obtain k' where k': "k' \<in> set ?K"
      and p: "prefix ''limit = '' (k' @ '' = \"'' @ toTemplateString (map_of args k') @ ''\"'')"
      by (auto simp del: append.simps set_simps)
    from key_prefix_other(3)[OF k'] p show False by blast
  qed
  have y: "(\<exists>a \<in> set (if truthy (map_of args ''limit'')
        then [''limit = '' @ toTemplateString (map_of args ''limit'')] else []).
        prefix ''limit = '' a) \<longleftrightarrow> truthy (map_of args ''limit'')"
    by simp
  have z: "\<not> (\<exists>a \<in> set (case map_of args ''fields'' of
          Some (JSArr fs) \<Rightarrow> [''fields = {{'' @ join '', '' (map (\<lambda>f. ''\"'' @ f @ ''\"'') fs) @ ''}'']
        | _ \<Rightarrow> []). prefix ''limit = '' a)"
    unfolding fields_part by simp
  show ?thesis
    unfolding connectionArgs_form set_append bex_Un using x y z by blast
qed

lemma connection_fields_iff:
  "(\<exists>a \<in> set (connectionArgs args). prefix ''fields = '' a) \<longleftrightarrow> isArray (map_of args ''fields'')"
proof -
  let ?K = "[''name'', ''keyField'', ''sortField'', ''keyName'']"
  let ?X = "map (\<lambda>k. k @ '' = \"'' @ toTemplateString (map_of args k) @ ''\"'')
       (filter (\<lambda>k. k \<in> set ?K) (map fst args))"
  have x: "\<not> (\<exists>a \<in> set ?X. prefix ''fields = '' a)"
  proof
    assume "\<exists>a \<in> set ?X. prefix ''fields = '' a"
    then obtain k' where k': "k' \<in> set ?K"
      and p: "prefix ''fields = '' (k' @ '' = \"'' @ toTemplateString (map_of args k') @ ''\"'')"
      by (auto simp del: append.simps set_simps)
    from key_prefix_other(4)[OF k'] p show False by blast
  qed
  have y: "\<not> (\<exists>a \<in> set (if truthy (map_of args ''limit'')
        then [''limit = '' @ toTemplateString (map_of args ''limit'')] else []).
        prefix ''fields = '' a)"
    by simp
  have z: "(\<exists>a \<in> set (case map_of args ''fields'' of
          Some (JSArr fs) \<Rightarrow> [''fields = {{'' @ join '', '' (map (\<lambda>f. ''\"'' @ f @ ''\"'') fs) @ ''}'']
        | _ \<Rightarrow> []). prefix ''fields = '' a) \<longleftrightarrow> isArray (map_of args ''fields'')"
    unfolding fields_part isArray_iff by simp
  show ?thesis
    unfolding connectionArgs_form set_append bex_Un using x y z by blast
qed

lemma fold_connection:
  "fold (\<lambda>annotation annotations.
           if d_name annotation = ''connection'' then
             (if connectionArgs (d_arguments annotation) \<noteq> []
              then annotations @ [''Connection('' @ join '', '' (connectionArgs (d_arguments annotation)) @ '')'']
              else annotations)
           else annotations) ds acc
   = acc @ map (\<lambda>d. ''Connection('' @ join '', '' (connectionArgs (d_arguments d)) @ '')'')
             (filter (\<lambda>d. d_name d = ''connection'' \<and> connectionArgs (d_arguments d) \<noteq> []) ds)"
  by (induction ds arbitrary: acc) simp_all

lemma generateFieldAnnotations_form:
  "generateFieldAnnotations e field
       = (''ModelField('' @ join '', '' (filter (\<lambda>arg. arg \<noteq> [])
            [''targetName=\"'' @ f_name field @ ''\"'',
             ''targetType=\"'' @ f_type field @ ''\"'',
             if \<not> f_isNullable field then ''isRequired = true'' else []]) @ '')'')
         # map (\<lambda>d. ''Connection('' @ join '', '' (connectionArgs (d_arguments d)) @ '')'')
             (filter (\<lambda>d. d_name d = ''connection'' \<and> connectionArgs (d_arguments d) \<noteq> [])
                (f_directives field))"
  unfolding generateFieldAnnotations_def Let_def fold_connection
  by (simp only: append_Cons append_Nil)

text \<open>
  Claim C8, as amended.  In the argument list of a \<^verbatim>\<open>connection\<close> directive's annotation,
  each of the keys \<^verbatim>\<open>name\<close>, \<^verbatim>\<open>keyField\<close>, \<^verbatim>\<open>sortField\<close>, \<^verbatim>\<open>keyName\<close> has an argument exactly
  when the directive has that key; \<^verbatim>\<open>limit\<close> has one exactly when the directive's limit is
  truthy (present and not zero); \<^verbatim>\<open>fields\<close> has one exactly when the directive's fields is
  an array.  The field's annotations are the field-metadata annotation followed by one
  relationship annotation for every \<^verbatim>\<open>connection\<close> directive whose argument list is not
  empty.
\<close>

theorem connection_arguments:
  "(\<forall>k \<in> set [''name'', ''keyField'', ''sortField'', ''keyName''].
      (\<exists>a \<in> set (connectionArgs args). prefix (k @ '' = \"'') a) \<longleftrightarrow> k \<in> set (map fst args))
   \<and> ((\<exists>a \<in> set (connectionArgs args). prefix ''limit = '' a) \<longleftrightarrow> truthy (map_of args ''limit''))
   \<and> ((\<exists>a \<in> set (connectionArgs args). prefix ''fields = '' a) \<longleftrightarrow> isArray (map_of args ''fields''))
   \<and> generateFieldAnnotations e field
       = (''ModelField('' @ join '', '' (filter (\<lambda>arg. arg \<noteq> [])
            [''targetName=\"'' @ f_name field @ ''\"'',
             ''targetType=\"'' @ f_type field @ ''\"'',
             if \<not> f_isNullable field then ''isRequired = true'' else []]) @ '')'')
         # map (\<lambda>d. ''Connection('' @ join '', '' (connectionArgs (d_arguments d)) @ '')'')
             (filter (\<lambda>d. d_name d = ''connection'' \<and> connectionArgs (d_arguments d) \<noteq> [])
                (f_directives field))"
  using connection_key_iff[of _ args] connection_limit_iff[of args] connection_fields_iff[of args]
    generateFieldAnnotations_form[of e field]
  by blast


theorem connection_arguments_witness:
  "connectionArgs
     [(''name'', JSStr ''PostComments''), (''limit'', JSNum 50),
      (''fields'', JSArr [''postId'', ''createdOn''])]
     = [''name = \"PostComments\"'', ''limit = 50'', ''fields = {{\"postId\", \"createdOn\"}'']
   \<and> generateFieldAnnotations exampleCollaborators
       \<lparr>f_name = ''comments'', f_type = ''Comment'', f_isNullable = True,
        f_directives =
          [\<lparr>d_name = ''connection'',
            d_arguments = [(''name'', JSStr ''PostComments''), (''limit'', JSNum 50),
                           (''fields'', JSArr [''postId'', ''createdOn''])]\<rparr>]\<rparr>
     = [''ModelField(targetName=\"comments\", targetType=\"Comment\")'',
        ''Connection(name = \"PostComments\", limit = 50, fields = {{\"postId\", \"createdOn\"})'']"
proof -
  have a: "connectionArgs
     [(''name'', JSStr ''PostComments''), (''limit'', JSNum 50),
      (''fields'', JSArr [''postId'', ''createdOn''])]
     = [''name = \"PostComments\"'', ''limit = 50'', ''fields = {{\"postId\", \"createdOn\"}'']"
    by (simp add: connectionArgs_def intToString_def)
  show ?thesis
    using connection_arguments[of
        "[(''name'', JSStr ''PostComments''), (''limit'', JSNum 50),
          (''fields'', JSArr [''postId'', ''createdOn''])]"
        exampleCollaborators
        "\<lparr>f_name = ''comments'', f_type = ''Comment'', f_isNullable = True,
        f_directives =
          [\<lparr>d_name = ''connection'',
            d_arguments = [(''name'', JSStr ''PostComments''), (''limit'', JSNum 50),
                           (''fields'', JSArr [''postId'', ''createdOn''])]\<rparr>]\<rparr>"]
    by (simp add: a)
qed

text \<open>
  Claim C8 as stated fails: a \<^verbatim>\<open>connection\<close> directive whose only argument is
  \<^verbatim>\<open>limit: 0\<close> has the limit, and nothing is rendered for it.
\<close>

theorem zero_limit_is_omitted:
  "connectionArgs [(''limit'', JSNum 0)] = []
   \<and> generateFieldAnnotations exampleCollaborators
       \<lparr>f_name = ''comments'', f_type = ''Comment'', f_isNullable = True,
        f_directives = [\<lparr>d_name = ''connection'', d_arguments = [(''limit'', JSNum 0)]\<rparr>]\<rparr>
     = [''ModelField(targetName=\"comments\", targetType=\"Comment\")'']"
  by (simp add: connectionArgs_def generateFieldAnnotations_def)

subsection \<open>The loader's list of model classes\<close>

lemma loader_methods:
  "map mt_name (b_methods (loaderClassDeclaration e v))
     = [LOADER_CLASS_NAME e, ''getInstance'', ''models'', ''version'']
   \<and> mt_implementation (b_methods (loaderClassDeclaration e v) ! 2) = modelsMethodImplementation e v"
  by (simp add: loaderClassDeclaration_def Let_def newBlock_def classMethod_def)

lemma subseq_map_filter: "subseq (map f (filter P xs)) (map f xs)"
  by (simp add: subseq_map)

text \<open>
  Claim C6, as amended.  The \<^verbatim>\<open>models\<close> method of the loader (its third method) lists one
  class reference for every entry of the type map, in the type map's order, whatever the
  selection of the pass is; the generator removes no duplicate (the generated code puts the
  list into a \<^verbatim>\<open>HashSet\<close>).  The references of the selected models are a subsequence of
  that list, and the selected models are the whole type map when the selector keeps every
  name.
\<close>

theorem loader_lists_the_type_map:
  "length (b_methods (loaderClassDeclaration e v)) = 4
   \<and> mt_name (b_methods (loaderClassDeclaration e v) ! 2) = ''models''
   \<and> mt_returnType (b_methods (loaderClassDeclaration e v) ! 2) = Some ''Set<Class<? extends Model>>''
   \<and> mt_implementation (b_methods (loaderClassDeclaration e v) ! 2)
       = ''final Set<Class<? extends Model>> modifiableSet = new HashSet<>('' @ nl
         @ ''      Arrays.<Class<? extends Model>>asList(''
         @ join '', '' (map (\<lambda>(name, model). getModelName e model @ ''.class'') (typeMap v))
         @ '')'' @ nl
         @ ''    );'' @ nl @ nl @ ''    return Immutable.of(modifiableSet);'' @ nl @ ''    ''
   \<and> subseq (map (\<lambda>(name, model). getModelName e model @ ''.class'') (getSelectedModels v))
        (map (\<lambda>(name, model). getModelName e model @ ''.class'') (typeMap v))
   \<and> (list_all (\<lambda>(name, model). selector v name) (typeMap v)
        \<longrightarrow> getSelectedModels v = typeMap v)"
proof (intro conjI)
  show "length (b_methods (loaderClassDeclaration e v)) = 4"
    by (simp add: loaderClassDeclaration_def Let_def newBlock_def)
  show "mt_name (b_methods (loaderClassDeclaration e v) ! 2) = ''models''"
    by (simp add: loaderClassDeclaration_def Let_def newBlock_def classMethod_def)
  show "mt_returnType (b_methods (loaderClassDeclaration e v) ! 2) = Some ''Set<Class<? extends Model>>''"
    by (simp add: loaderClassDeclaration_def Let_def newBlock_def classMethod_def)
  have m: "map (\<lambda>model. getModelName e model @ ''.class'') (map snd (typeMap v))
      = map (\<lambda>(name, model). getModelName e model @ ''.class'') (typeMap v)"
    by (simp add: split_def)
  show "mt_implementation (b_methods (loaderClassDeclaration e v) ! 2)
       = ''final Set<Class<? extends Model>> modifiableSet = new HashSet<>('' @ nl
         @ ''      Arrays.<Class<? extends Model>>asList(''
         @ join '', '' (map (\<lambda>(name, model). getModelName e model @ ''.class'') (typeMap v))
         @ '')'' @ nl
         @ ''    );'' @ nl @ nl @ ''    return Immutable.of(modifiableSet);'' @ nl @ ''    ''"
    by (simp only: conjunct2[OF loader_methods] modelsMethodImplementation_def classList_def m)
  show "subseq (map (\<lambda>(name, model). getModelName e model @ ''.class'') (getSelectedModels v))
        (map (\<lambda>(name, model). getModelName e model @ ''.class'') (typeMap v))"
    unfolding getSelectedModels_def by (rule subseq_map_filter)
  show "list_all (\<lambda>(name, model). selector v name) (typeMap v)
        \<longrightarrow> getSelectedModels v = typeMap v"
    by (simp add: getSelectedModels_def list_all_iff split_def)
qed

theorem loader_lists_the_type_map_witness:
  "mt_implementation (b_methods (loaderClassDeclaration exampleCollaborators exampleVisitor) ! 2)
       = ''final Set<Class<? extends Model>> modifiableSet = new HashSet<>('' @ nl
         @ ''      Arrays.<Class<? extends Model>>asList(Comment.class, Post.class)'' @ nl
         @ ''    );'' @ nl @ nl @ ''    return Immutable.of(modifiableSet);'' @ nl @ ''    ''
   \<and> getSelectedModels exampleVisitor = typeMap exampleVisitor"
proof -
  have all: "list_all (\<lambda>(name, model). selector exampleVisitor name) (typeMap exampleVisitor)"
    by (simp add: exampleVisitor_def newVisitor_def)
  show ?thesis
    using loader_lists_the_type_map[of exampleCollaborators exampleVisitor] all
    by (simp add: exampleVisitor_def newVisitor_def exampleCollaborators_def exampleComment_def
        examplePost_def)
qed

text \<open>
  Claim C6 as stated fails: with \<^verbatim>\<open>Comment\<close> and \<^verbatim>\<open>Post\<close> in the type map and only
  \<^verbatim>\<open>Post\<close> selected, the loader still lists both classes.
\<close>

theorem loader_ignores_the_selection:
  "mt_implementation (b_methods (loaderClassDeclaration exampleCollaborators exampleVisitorPostOnly) ! 2)
       = ''final Set<Class<? extends Model>> modifiableSet = new HashSet<>('' @ nl
         @ ''      Arrays.<Class<? extends Model>>asList(Comment.class, Post.class)'' @ nl
         @ ''    );'' @ nl @ nl @ ''    return Immutable.of(modifiableSet);'' @ nl @ ''    ''
   \<and> map (\<lambda>(name, model). getModelName exampleCollaborators model @ ''.class'')
         (getSelectedModels exampleVisitorPostOnly) = [''Post.class'']"
  using loader_methods[of exampleCollaborators exampleVisitorPostOnly]
  by (simp add: modelsMethodImplementation_def classList_def getSelectedModels_def
      exampleVisitorPostOnly_def newVisitor_def exampleCollaborators_def exampleComment_def
      examplePost_def)

subsection \<open>The set of additional packages\<close>

lemma set_setAdd: "set (setAdd x xs) = insert x (set xs)"
  by (auto simp: setAdd_def)

lemma set_register:
  "set (register e field pkgs) =
     set pkgs \<union> (if CHR ''.'' \<in> set (superGetNativeType e field)
                 then {superGetNativeType e field} else {})"
  by (simp add: register_def set_setAdd)

lemma set_fold_register:
  "set (fold (register e) fs pkgs) =
     set pkgs \<union> {superGetNativeType e field | field.
                  field \<in> set fs \<and> CHR ''.'' \<in> set (superGetNativeType e field)}"
  by (induction fs arbitrary: pkgs) (auto simp: set_register split: if_splits)

lemma register_known:
  assumes "CHR ''.'' \<in> set (superGetNativeType e field) \<Longrightarrow> superGetNativeType e field \<in> set pkgs"
  shows "register e field pkgs = pkgs"
  using assms by (simp add: register_def setAdd_def)

lemma fold_register_idem:
  assumes "set xs \<subseteq> set fs"
  shows "fold (register e) xs (fold (register e) fs pkgs) = fold (register e) fs pkgs"
  using assms
proof (induction xs)
  case Nil
  then show ?case by simp
next
  case (Cons x xs)
  have "register e x (fold (register e) fs pkgs) = fold (register e) fs pkgs"
    using Cons.prems by (intro register_known) (auto simp: set_fold_register)
  with Cons show ?case by simp
qed

text \<open>Registering the fields \<open>fs\<close>, one after the other, in a visitor.\<close>

lemma fold_visitor_register:
  "fold (\<lambda>field s. s\<lparr>additionalPackages := register e field (additionalPackages s)\<rparr>) fs v
     = v\<lparr>additionalPackages := fold (register e) fs (additionalPackages v)\<rparr>"
  by (induction fs arbitrary: v) simp_all


lemma fold_register_settled:
  assumes "\<And>field. field \<in> set xs \<Longrightarrow> CHR ''.'' \<in> set (superGetNativeType e field)
             \<Longrightarrow> superGetNativeType e field \<in> set (additionalPackages s)"
  shows "fold (\<lambda>field s. s\<lparr>additionalPackages := register e field (additionalPackages s)\<rparr>) xs s = s"
  using assms
proof (induction xs)
  case Nil
  then show ?case by simp
next
  case (Cons x xs)
  have "register e x (additionalPackages s) = additionalPackages s"
    by (rule register_known) (simp add: Cons.prems)
  with Cons show ?case by simp
qed

lemma generateField_loop_snd:
  "snd (forEachS (generateField e) fs b v)
     = fold (\<lambda>field s. s\<lparr>additionalPackages := register e field (additionalPackages s)\<rparr>) fs v"
  by (rule forEachS_snd) (simp add: generateField_def Let_def getNativeType_eq)

lemma generateGetters_snd:
  "snd (generateGetters e model b v)
     = fold (\<lambda>field s. s\<lparr>additionalPackages := register e field (additionalPackages s)\<rparr>)
         (m_fields model) v"
  unfolding generateGetters_def
  by (rule forEachS_snd) (simp add: getter_def Let_def getNativeType_eq)

lemma generateConstructor_snd:
  "snd (generateConstructor e model b v)
     = fold (\<lambda>field s. s\<lparr>additionalPackages := register e field (additionalPackages s)\<rparr>)
         (m_fields model) v"
proof -
  have "\<And>xs s. snd (mapS (constructorArgument e) xs s)
      = fold (\<lambda>field s. s\<lparr>additionalPackages := register e field (additionalPackages s)\<rparr>) xs s"
    by (rule mapS_snd) (simp add: constructorArgument_def getNativeType_eq)
  then show ?thesis
    by (simp add: generateConstructor_def Let_def split_def)
qed

lemma generateBuilderClass_fault_stage:
  assumes nn: "nonNullableFields = filter (\<lambda>field. \<not> f_isNullable field) (m_fields model)"
    and nu: "nullableFields = filter (\<lambda>field. f_isNullable field) (m_fields model)"
    and fs: "fs = filter (\<lambda>field. f_name field \<notin> set READ_ONLY_FIELDS) nonNullableFields"
    and s1: "forEachS (builderSlot e) (nonNullableFields @ nullableFields)
               (implements (map (\<lambda>field. getStepInterfaceName e (f_name field)) fs
                  @ [getStepInterfaceName e ''Build''])
                 (withName ''Builder'' (asKind ''class'' (static (access ''public'' newBlock))))) v
             = (b1, v1)"
    and s2: "propName (at fs 0) = Inl err"
  shows "generateBuilderClass e model classDeclaration v = (Inl err, v1)"
  unfolding generateBuilderClass_def Let_def nn[symmetric] nu[symmetric] fs[symmetric]
  by (simp only: s1 s2 prod.case sum.case)

lemma generateBuilderClass_snd:
  "\<exists>xs. set xs \<subseteq> set (m_fields model)
     \<and> snd (generateBuilderClass e model classDeclaration v)
       = fold (\<lambda>field s. s\<lparr>additionalPackages := register e field (additionalPackages s)\<rparr>) xs v"
proof -
  let ?k = "\<lambda>field s. s\<lparr>additionalPackages := register e field (additionalPackages s)\<rparr>"
  define nn where "nn = filter (\<lambda>field. \<not> f_isNullable field) (m_fields model)"
  define nu where "nu = filter (\<lambda>field. f_isNullable field) (m_fields model)"
  define fs where "fs = filter (\<lambda>field. f_name field \<notin> set READ_ONLY_FIELDS) nn"
  let ?B0 = "implements (map (\<lambda>field. getStepInterfaceName e (f_name field)) fs
                  @ [getStepInterfaceName e ''Build''])
                 (withName ''Builder'' (asKind ''class'' (static (access ''public'' newBlock))))"
  have sub: "set nn \<subseteq> set (m_fields model)" "set nu \<subseteq> set (m_fields model)"
    "set fs \<subseteq> set (m_fields model)"
    by (auto simp: nn_def nu_def fs_def)
  obtain b1 v1 where s1: "forEachS (builderSlot e) (nn @ nu) ?B0 v = (b1, v1)"
    by (cases "forEachS (builderSlot e) (nn @ nu) ?B0 v")
  have "snd (forEachS (builderSlot e) (nn @ nu) ?B0 v) = fold ?k (nn @ nu) v"
    by (rule forEachS_snd) (simp add: builderSlot_eq)
  with s1 have v1: "v1 = fold ?k (nn @ nu) v" by simp
  show ?thesis
  proof (cases "fs = []")
    case True
    then have s2: "propName (at fs 0) = Inl (TypeError ''Cannot read property 'name' of undefined'')"
      by (simp add: at_def)
    have "generateBuilderClass e model classDeclaration v
        = (Inl (TypeError ''Cannot read property 'name' of undefined''), v1)"
      by (rule generateBuilderClass_fault_stage[OF nn_def nu_def fs_def s1 s2])
    with v1 sub show ?thesis
      by (intro exI[of _ "nn @ nu"]) simp
  next
    case False
    then have s2: "propName (at fs 0) = Inr (f_name (fs ! 0))"
      by (simp add: at_def)
    let ?b3 = "addClassMethod
                 (classMethod ''build'' (Some (getModelName e model))
                    (indentMultiline e (join nl (buildImplementation e model)) 1) None (Some [])
                    ''public'' [] [''Override''] [] None)
                 (addClassMethod
                   (classMethod ''builder'' (Some (getStepInterfaceName e (f_name (fs ! 0))))
                      (indentMultiline e ''return new Builder();'' 1) (Some []) (Some []) ''public''
                      [''static''] [] [] None) b1)"
    obtain r4 v2 where s3': "forEachIdxE (stepMethod e fs) 0 fs ?b3 v1 = (r4, v2)"
      by (cases "forEachIdxE (stepMethod e fs) 0 fs ?b3 v1")
    have "\<exists>b4. fst (forEachIdxE (stepMethod e fs) 0 fs ?b3 v1) = Inr b4"
      using forEachIdxE_fst[of fs "stepMethod e fs" 0 _ ?b3 v1] by (simp add: stepMethod_eq)
    with s3' obtain b4 where s3: "forEachIdxE (stepMethod e fs) 0 fs ?b3 v1 = (Inr b4, v2)"
      by auto
    have "snd (forEachIdxE (stepMethod e fs) 0 fs ?b3 v1) = fold ?k fs v1"
      by (rule forEachIdxE_snd) (simp add: stepMethod_eq)
    with s3 have v2: "v2 = fold ?k fs v1" by simp
    obtain b5 v3 where s4: "forEachS (nullableMethod e) nu b4 v2 = (b5, v3)"
      by (cases "forEachS (nullableMethod e) nu b4 v2")
    have "snd (forEachS (nullableMethod e) nu b4 v2) = fold ?k nu v2"
      by (rule forEachS_snd) (simp add: nullableMethod_eq)
    with s4 have v3: "v3 = fold ?k nu v2" by simp
    have "snd (generateBuilderClass e model classDeclaration v) = v3"
      using generateBuilderClass_stages[OF nn_def nu_def fs_def s1 s2 s3 s4] by simp
    with v1 v2 v3 sub show ?thesis
      by (intro exI[of _ "(nn @ nu) @ fs @ nu"]) simp
  qed
qed


text \<open>
  One class: unless the model annotations fault (before any member is generated), the set
  ends as the registrations of the model's fields in declared order, whether or not a later
  step faults.
\<close>

lemma generateClass_snd:
  "snd (generateClass e model v) =
     (case generateModelAnnotations e model of
        Inl err \<Rightarrow> v
      | Inr annotations \<Rightarrow>
          v\<lparr>additionalPackages := fold (register e) (m_fields model) (additionalPackages v)\<rparr>)"
proof (cases "generateModelAnnotations e model")
  case (Inl err)
  then show ?thesis by (simp add: generateClass_def Let_def)
next
  case (Inr annotations)
  let ?k = "\<lambda>field s. s\<lparr>additionalPackages := register e field (additionalPackages s)\<rparr>"
  define v1 where "v1 = v\<lparr>additionalPackages := fold (register e) (m_fields model) (additionalPackages v)\<rparr>"
  have settled: "fold ?k xs v1 = v1" if "set xs \<subseteq> set (m_fields model)" for xs
    using that by (intro fold_register_settled) (auto simp: v1_def set_fold_register)
  have A: "\<And>b. snd (forEachS (generateField e) (m_fields model) b v) = v1"
    by (simp add: generateField_loop_snd fold_visitor_register v1_def)
  have B: "snd (generateStepBuilderInterfaces e model v1) = v1"
    unfolding generateStepBuilderInterfaces_snd by (rule settled) auto
  have C: "\<And>cd. snd (generateBuilderClass e model cd v1) = v1"
  proof -
    fix cd
    obtain xs where "set xs \<subseteq> set (m_fields model)"
      and "snd (generateBuilderClass e model cd v1) = fold ?k xs v1"
      using generateBuilderClass_snd[of model e cd v1] by blast
    then show "snd (generateBuilderClass e model cd v1) = v1"
      using settled[of xs] by simp
  qed
  have D: "\<And>b. snd (generateGetters e model b v1) = v1"
    unfolding generateGetters_snd by (rule settled) simp
  have E: "\<And>b. snd (generateConstructor e model b v1) = v1"
    unfolding generateConstructor_snd by (rule settled) simp
  let ?B2 = "fold (generateQueryFields e) (m_fields model)
      (annotate annotations
        (final (withComment
              (''This is an auto generated class representing the '' @ m_name model
                 @ '' type in your schema.'')
              (implements [''Model'']
                (withName (getModelName e model) (access ''public'' (asKind ''class'' newBlock)))))))"
  obtain b3 where s1: "forEachS (generateField e) (m_fields model) ?B2 v = (b3, v1)"
    using A[of ?B2] by (cases "forEachS (generateField e) (m_fields model) ?B2 v") simp
  obtain r2 where s2: "generateStepBuilderInterfaces e model v1 = (r2, v1)"
    using B by (cases "generateStepBuilderInterfaces e model v1") simp
  have "snd (generateClass e model v) = v1"
  proof (cases r2)
    case (Inl err)
    have "generateClass e model v = (Inl err, v1)"
      unfolding generateClass_def Let_def Inr
      by (simp only: s1 s2[unfolded Inl] prod.case sum.case)
    then show ?thesis by simp
  next
    case ifaces: (Inr builderInterfaces)
    obtain r3 where s3: "generateBuilderClass e model (fold nestedClass builderInterfaces b3) v1 = (r3, v1)"
      using C[of "fold nestedClass builderInterfaces b3"]
      by (cases "generateBuilderClass e model (fold nestedClass builderInterfaces b3) v1") simp
    show ?thesis
    proof (cases r3)
      case (Inl err)
      have "generateClass e model v = (Inl err, v1)"
        unfolding generateClass_def Let_def Inr
        by (simp only: s1 s2[unfolded ifaces] s3[unfolded Inl] prod.case sum.case)
      then show ?thesis by simp
    next
      case b5: (Inr b5)
      obtain b6 where s4: "generateGetters e model b5 v1 = (b6, v1)"
        using D[of b5] by (cases "generateGetters e model b5 v1") simp
      obtain b7 where s5: "generateConstructor e model b6 v1 = (b7, v1)"
        using E[of b6] by (cases "generateConstructor e model b6 v1") simp
      have "generateClass e model v
          = (Inr (blockString e (generateHashCodeMethod e model (generateEqualsMethod e model b7))), v1)"
        unfolding generateClass_def Let_def Inr
        by (simp only: s1 s2[unfolded ifaces] s3[unfolded b5] s4 s5 prod.case sum.case)
      then show ?thesis by simp
    qed
  qed
  then show ?thesis by (simp add: Inr v1_def)
qed


lemma generateClass_success:
  assumes ann: "generateModelAnnotations e model = Inr annotations"
    and ne: "filter (\<lambda>field. f_name field \<notin> set READ_ONLY_FIELDS)
               (filter (\<lambda>field. \<not> f_isNullable field) (m_fields model)) \<noteq> []"
  shows "\<exists>b. generateClass e model v =
     (Inr (blockString e b),
      v\<lparr>additionalPackages := fold (register e) (m_fields model) (additionalPackages v)\<rparr>)"
proof -
  define v1 where "v1 = v\<lparr>additionalPackages := fold (register e) (m_fields model) (additionalPackages v)\<rparr>"
  have snd_all: "snd (generateClass e model v) = v1"
    by (simp add: generateClass_snd ann v1_def)
  let ?B2 = "fold (generateQueryFields e) (m_fields model)
      (annotate annotations
        (final (withComment
              (''This is an auto generated class representing the '' @ m_name model
                 @ '' type in your schema.'')
              (implements [''Model'']
                (withName (getModelName e model) (access ''public'' (asKind ''class'' newBlock)))))))"
  obtain b3 v1' where s1: "forEachS (generateField e) (m_fields model) ?B2 v = (b3, v1')"
    by (cases "forEachS (generateField e) (m_fields model) ?B2 v")
  obtain builderInterfaces v2 where s2: "generateStepBuilderInterfaces e model v1' = (Inr builderInterfaces, v2)"
    using generateStepBuilderInterfaces_fst[OF refl, of e model v1']
    by (cases "generateStepBuilderInterfaces e model v1'") simp
  obtain b5 v3 where s3: "generateBuilderClass e model (fold nestedClass builderInterfaces b3) v2 = (Inr b5, v3)"
    using generateBuilderClass_fst[OF refl refl refl ne, of e "fold nestedClass builderInterfaces b3" v2]
    by (cases "generateBuilderClass e model (fold nestedClass builderInterfaces b3) v2") simp
  obtain b6 v4 where s4: "generateGetters e model b5 v3 = (b6, v4)"
    by (cases "generateGetters e model b5 v3")
  obtain b7 v5 where s5: "generateConstructor e model b6 v4 = (b7, v5)"
    by (cases "generateConstructor e model b6 v4")
  have r: "generateClass e model v
      = (Inr (blockString e (generateHashCodeMethod e model (generateEqualsMethod e model b7))), v5)"
    unfolding generateClass_def Let_def ann
    by (simp only: s1 s2 s3 s4 s5 prod.case sum.case)
  with snd_all have "v5 = v1" by simp
  with r show ?thesis unfolding v1_def by blast
qed

lemma generateClass_Inr_annotations:
  assumes "fst (generateClass e model v) = Inr text"
  shows "\<exists>annotations. generateModelAnnotations e model = Inr annotations"
  using assms by (cases "generateModelAnnotations e model") (simp_all add: generateClass_def Let_def)

lemma generateClass_frame:
  "typeMap (snd (generateClass e model v)) = typeMap v"
  "selector (snd (generateClass e model v)) = selector v"
  by (simp_all add: generateClass_snd split: sum.splits)

lemma generateClass_packages:
  "set (additionalPackages v) \<subseteq> set (additionalPackages (snd (generateClass e model v)))"
  "set (additionalPackages (snd (generateClass e model v)))
     \<subseteq> set (additionalPackages v)
       \<union> {superGetNativeType e field | field.
            field \<in> set (m_fields model) \<and> CHR ''.'' \<in> set (superGetNativeType e field)}"
  "fst (generateClass e model v) = Inr text \<Longrightarrow>
     set (additionalPackages (snd (generateClass e model v)))
     = set (additionalPackages v)
       \<union> {superGetNativeType e field | field.
            field \<in> set (m_fields model) \<and> CHR ''.'' \<in> set (superGetNativeType e field)}"
proof -
  show "set (additionalPackages v) \<subseteq> set (additionalPackages (snd (generateClass e model v)))"
    by (simp add: generateClass_snd set_fold_register split: sum.splits)
  show "set (additionalPackages (snd (generateClass e model v)))
     \<subseteq> set (additionalPackages v)
       \<union> {superGetNativeType e field | field.
            field \<in> set (m_fields model) \<and> CHR ''.'' \<in> set (superGetNativeType e field)}"
    by (simp add: generateClass_snd set_fold_register split: sum.splits)
  assume "fst (generateClass e model v) = Inr text"
  then obtain annotations where "generateModelAnnotations e model = Inr annotations"
    using generateClass_Inr_annotations by blast
  then show "set (additionalPackages (snd (generateClass e model v)))
     = set (additionalPackages v)
       \<union> {superGetNativeType e field | field.
            field \<in> set (m_fields model) \<and> CHR ''.'' \<in> set (superGetNativeType e field)}"
    by (simp add: generateClass_snd set_fold_register)
qed

lemma pass_frame:
  "typeMap (snd (mapSE (\<lambda>(name, model). generateClass e model) ms v)) = typeMap v
   \<and> selector (snd (mapSE (\<lambda>(name, model). generateClass e model) ms v)) = selector v"
proof (induction ms arbitrary: v)
  case Nil
  then show ?case by simp
next
  case (Cons m ms)
  obtain name model where m: "m = (name, model)" by (cases m)
  obtain r v1 where g: "generateClass e model v = (r, v1)" by (cases "generateClass e model v")
  have f: "typeMap v1 = typeMap v" "selector v1 = selector v"
    using generateClass_frame[of e model v] g by simp_all
  show ?case
    using Cons.IH[of v1] f
    by (cases r) (simp_all add: m g split_def split: sum.splits)
qed

lemma pass_packages_lower:
  "set (additionalPackages v)
     \<subseteq> set (additionalPackages (snd (mapSE (\<lambda>(name, model). generateClass e model) ms v)))"
proof (induction ms arbitrary: v)
  case Nil
  then show ?case by simp
next
  case (Cons m ms)
  obtain name model where m: "m = (name, model)" by (cases m)
  obtain r v1 where g: "generateClass e model v = (r, v1)" by (cases "generateClass e model v")
  have f: "set (additionalPackages v) \<subseteq> set (additionalPackages v1)"
    using generateClass_packages(1)[of v e model] g by simp
  show ?case
    using Cons.IH[of v1] f
    by (cases r) (auto simp: m g split_def split: sum.splits)
qed

lemma qualified_Cons:
  "{superGetNativeType e field | field name model.
      (name, model) \<in> set ((n, m) # ms) \<and> field \<in> set (m_fields model)
      \<and> CHR ''.'' \<in> set (superGetNativeType e field)}
   = {superGetNativeType e field | field.
        field \<in> set (m_fields m) \<and> CHR ''.'' \<in> set (superGetNativeType e field)}
     \<union> {superGetNativeType e field | field name model.
        (name, model) \<in> set ms \<and> field \<in> set (m_fields model)
        \<and> CHR ''.'' \<in> set (superGetNativeType e field)}"
  by auto

lemma subset_chain: "A \<subseteq> B \<union> Q \<Longrightarrow> B \<subseteq> C \<union> P \<Longrightarrow> A \<subseteq> C \<union> (P \<union> Q)"
  by blast

lemma subset_weaken: "B \<subseteq> C \<union> P \<Longrightarrow> B \<subseteq> C \<union> (P \<union> Q)"
  by blast

lemma union_chain: "A = B \<union> Q \<Longrightarrow> B = C \<union> P \<Longrightarrow> A = C \<union> (P \<union> Q)"
  by blast

lemma pass_packages_upper:
  "set (additionalPackages (snd (mapSE (\<lambda>(name, model). generateClass e model) ms v)))
     \<subseteq> set (additionalPackages v)
       \<union> {superGetNativeType e field | field name model.
            (name, model) \<in> set ms \<and> field \<in> set (m_fields model)
            \<and> CHR ''.'' \<in> set (superGetNativeType e field)}"
proof (induction ms arbitrary: v)
  case Nil
  then show ?case by simp
next
  case (Cons m ms)
  obtain name model where m: "m = (name, model)" by (cases m)
  obtain r v1 where g: "generateClass e model v = (r, v1)" by (cases "generateClass e model v")
  have f: "set (additionalPackages v1) \<subseteq> set (additionalPackages v)
       \<union> {superGetNativeType e field | field.
            field \<in> set (m_fields model) \<and> CHR ''.'' \<in> set (superGetNativeType e field)}"
    using generateClass_packages(2)[of e model v] g by simp
  show ?case
  proof (cases r)
    case (Inl err)
    have "snd (mapSE (\<lambda>(name, model). generateClass e model) ((name, model) # ms) v) = v1"
      by (simp add: g Inl)
    then show ?thesis
      unfolding m qualified_Cons by (simp only: subset_weaken[OF f])
  next
    case (Inr y)
    have "snd (mapSE (\<lambda>(name, model). generateClass e model) ((name, model) # ms) v)
        = snd (mapSE (\<lambda>(name, model). generateClass e model) ms v1)"
      by (simp add: g Inr split_def split: sum.splits)
    then show ?thesis
      unfolding m qualified_Cons by (simp only: subset_chain[OF Cons.IH[of v1] f])
  qed
qed

lemma pass_packages_exact:
  assumes "fst (mapSE (\<lambda>(name, model). generateClass e model) ms v) = Inr classes"
  shows "set (additionalPackages (snd (mapSE (\<lambda>(name, model). generateClass e model) ms v)))
     = set (additionalPackages v)
       \<union> {superGetNativeType e field | field name model.
            (name, model) \<in> set ms \<and> field \<in> set (m_fields model)
            \<and> CHR ''.'' \<in> set (superGetNativeType e field)}"
  using assms
proof (induction ms arbitrary: v classes)
  case Nil
  then show ?case by simp
next
  case (Cons m ms)
  obtain name model where m: "m = (name, model)" by (cases m)
  obtain r v1 where g: "generateClass e model v = (r, v1)" by (cases "generateClass e model v")
  from Cons.prems obtain y where r: "r = Inr y"
    by (cases r) (simp_all add: m g)
  obtain rs v2 where t: "mapSE (\<lambda>(name, model). generateClass e model) ms v1 = (rs, v2)"
    by (cases "mapSE (\<lambda>(name, model). generateClass e model) ms v1")
  from Cons.prems obtain ys where rs: "rs = Inr ys"
    by (cases rs) (simp_all add: m g r t)
  have f: "set (additionalPackages v1) = set (additionalPackages v)
       \<union> {superGetNativeType e field | field.
            field \<in> set (m_fields model) \<and> CHR ''.'' \<in> set (superGetNativeType e field)}"
    using generateClass_packages(3)[of e model v y] g r by simp
  have ih: "set (additionalPackages v2) = set (additionalPackages v1)
       \<union> {superGetNativeType e field | field name model.
            (name, model) \<in> set ms \<and> field \<in> set (m_fields model)
            \<and> CHR ''.'' \<in> set (superGetNativeType e field)}"
    using Cons.IH[of v1 ys] t rs by simp
  have "snd (mapSE (\<lambda>(name, model). generateClass e model) ((name, model) # ms) v) = v2"
    by (simp add: g r t rs)
  then show ?case
    unfolding m qualified_Cons by (simp only: union_chain[OF ih f])
qed

lemma generateClasses_snd:
  "snd (generateClasses e v) = snd (mapSE (\<lambda>(name, model). generateClass e model) (getSelectedModels v) v)"
  by (simp add: generateClasses_def Let_def split_def split: sum.splits)

lemma generateClasses_Inr:
  assumes "fst (generateClasses e v) = Inr text"
  shows "\<exists>classes. fst (mapSE (\<lambda>(name, model). generateClass e model) (getSelectedModels v) v) = Inr classes
     \<and> text = join nl (generatePackageHeader e (snd (generateClasses e v)) # classes)"
proof -
  obtain r v1 where m: "mapSE (\<lambda>(name, model). generateClass e model) (getSelectedModels v) v = (r, v1)"
    by (cases "mapSE (\<lambda>(name, model). generateClass e model) (getSelectedModels v) v")
  show ?thesis
    using assms by (cases r) (simp_all add: generateClasses_def Let_def m)
qed

text \<open>What the header does with the set: it prints it, entry by entry.\<close>

lemma generatePackageHeader_reads_the_set:
  "generatePackageHeader e v
     = generatePackageName e @ nl @ nl
       @ join nl (map (\<lambda>pkg. if pkg \<noteq> [] then ''import '' @ pkg @ '';'' else [])
           (additionalPackages v @ [[]] @ CLASS_IMPORT_PACKAGES e))"
  unfolding generatePackageHeader_def generateImportStatements_def Let_def
  by (simp only: join.simps append_Nil)

lemma import_line_in_header:
  assumes "pkg \<in> set (additionalPackages v)" and "pkg \<noteq> []"
  shows "''import '' @ pkg @ '';''
     \<in> set (map (\<lambda>pkg. if pkg \<noteq> [] then ''import '' @ pkg @ '';'' else [])
             (additionalPackages v @ [[]] @ CLASS_IMPORT_PACKAGES e))"
proof -
  have m: "pkg \<in> set (additionalPackages v @ [[]] @ CLASS_IMPORT_PACKAGES e)"
    using assms(1) by simp
  show ?thesis
    unfolding set_map
  proof (rule image_eqI[where x = pkg])
    show "''import '' @ pkg @ '';'' = (if pkg \<noteq> [] then ''import '' @ pkg @ '';'' else [])"
      using assms(2) by simp
    show "pkg \<in> set (additionalPackages v @ [[]] @ CLASS_IMPORT_PACKAGES e)"
      by (rule m)
  qed
qed

text \<open>
  Claim C9, as amended.  The set is empty in a visitor as constructed.  \<^verbatim>\<open>getNativeType\<close>
  adds to it the qualified type it shortens and changes nothing else.  Emitting one class,
  and emitting the classes of a pass, only add to it: entries are kept, and every new entry
  is the qualified type of a field of an emitted model.  When the pass returns its text,
  the set holds the qualified types of all selected models' fields, the one package header
  of the pass is rendered from that set, and the set is left as it is: rendering the header
  does not empty it.  The header reads the set: it is the package line, an empty line, one
  import line for every entry of the set in insertion order, an empty line, and the import
  lines of the fixed class imports; so every entry of the set has its import line in it.
\<close>

theorem additional_packages_accumulate:
  "additionalPackages (newVisitor types sel) = []
   \<and> snd (getNativeType e field v)
       = v\<lparr>additionalPackages :=
            (if CHR ''.'' \<in> set (superGetNativeType e field)
             then setAdd (superGetNativeType e field) (additionalPackages v)
             else additionalPackages v)\<rparr>
   \<and> set (additionalPackages v) \<subseteq> set (additionalPackages (snd (generateClass e model v)))
   \<and> set (additionalPackages (snd (generateClass e model v)))
       \<subseteq> set (additionalPackages v)
         \<union> {superGetNativeType e field | field.
              field \<in> set (m_fields model) \<and> CHR ''.'' \<in> set (superGetNativeType e field)}
   \<and> set (additionalPackages v) \<subseteq> set (additionalPackages (snd (generateClasses e v)))
   \<and> set (additionalPackages (snd (generateClasses e v)))
       \<subseteq> set (additionalPackages v)
         \<union> {superGetNativeType e field | field name model.
              (name, model) \<in> set (getSelectedModels v) \<and> field \<in> set (m_fields model)
              \<and> CHR ''.'' \<in> set (superGetNativeType e field)}
   \<and> generatePackageHeader e v
       = generatePackageName e @ nl @ nl
         @ join nl (map (\<lambda>pkg. if pkg \<noteq> [] then ''import '' @ pkg @ '';'' else [])
             (additionalPackages v @ [[]] @ CLASS_IMPORT_PACKAGES e))
   \<and> (\<forall>pkg \<in> set (additionalPackages v). pkg \<noteq> [] \<longrightarrow>
        ''import '' @ pkg @ '';''
          \<in> set (map (\<lambda>pkg. if pkg \<noteq> [] then ''import '' @ pkg @ '';'' else [])
                  (additionalPackages v @ [[]] @ CLASS_IMPORT_PACKAGES e)))
   \<and> (\<forall>text. fst (generateClasses e v) = Inr text \<longrightarrow>
        set (additionalPackages (snd (generateClasses e v)))
          = set (additionalPackages v)
            \<union> {superGetNativeType e field | field name model.
                 (name, model) \<in> set (getSelectedModels v) \<and> field \<in> set (m_fields model)
                 \<and> CHR ''.'' \<in> set (superGetNativeType e field)}
        \<and> (\<exists>classes. text
              = join nl (generatePackageHeader e (snd (generateClasses e v)) # classes))
        \<and> (\<exists>classes. text
              = join nl
                  ((generatePackageName e @ nl @ nl
                    @ join nl (map (\<lambda>pkg. if pkg \<noteq> [] then ''import '' @ pkg @ '';'' else [])
                        (additionalPackages (snd (generateClasses e v)) @ [[]]
                         @ CLASS_IMPORT_PACKAGES e)))
                   # classes)))"
proof (intro conjI allI impI ballI)
  show "additionalPackages (newVisitor types sel) = []"
    by (simp add: newVisitor_def)
  show "snd (getNativeType e field v)
       = v\<lparr>additionalPackages :=
            (if CHR ''.'' \<in> set (superGetNativeType e field)
             then setAdd (superGetNativeType e field) (additionalPackages v)
             else additionalPackages v)\<rparr>"
    by (simp add: getNativeType_def Let_def)
  show "set (additionalPackages v) \<subseteq> set (additionalPackages (snd (generateClass e model v)))"
    by (rule generateClass_packages(1))
  show "set (additionalPackages (snd (generateClass e model v)))
       \<subseteq> set (additionalPackages v)
         \<union> {superGetNativeType e field | field.
              field \<in> set (m_fields model) \<and> CHR ''.'' \<in> set (superGetNativeType e field)}"
    by (rule generateClass_packages(2))
  show "set (additionalPackages v) \<subseteq> set (additionalPackages (snd (generateClasses e v)))"
    unfolding generateClasses_snd by (rule pass_packages_lower)
  show "set (additionalPackages (snd (generateClasses e v)))
       \<subseteq> set (additionalPackages v)
         \<union> {superGetNativeType e field | field name model.
              (name, model) \<in> set (getSelectedModels v) \<and> field \<in> set (m_fields model)
              \<and> CHR ''.'' \<in> set (superGetNativeType e field)}"
    unfolding generateClasses_snd by (rule pass_packages_upper)
  show "generatePackageHeader e v
       = generatePackageName e @ nl @ nl
         @ join nl (map (\<lambda>pkg. if pkg \<noteq> [] then ''import '' @ pkg @ '';'' else [])
             (additionalPackages v @ [[]] @ CLASS_IMPORT_PACKAGES e))"
    by (rule generatePackageHeader_reads_the_set)
next
  fix pkg
  assume "pkg \<in> set (additionalPackages v)" and "pkg \<noteq> []"
  then show "''import '' @ pkg @ '';''
          \<in> set (map (\<lambda>pkg. if pkg \<noteq> [] then ''import '' @ pkg @ '';'' else [])
                  (additionalPackages v @ [[]] @ CLASS_IMPORT_PACKAGES e))"
    by (rule import_line_in_header)
next
  fix res
  assume ok: "fst (generateClasses e v) = Inr res"
  then obtain classes where
    c: "fst (mapSE (\<lambda>(name, model). generateClass e model) (getSelectedModels v) v) = Inr classes"
    and t: "res = join nl (generatePackageHeader e (snd (generateClasses e v)) # classes)"
    using generateClasses_Inr by blast
  show "set (additionalPackages (snd (generateClasses e v)))
          = set (additionalPackages v)
            \<union> {superGetNativeType e field | field name model.
                 (name, model) \<in> set (getSelectedModels v) \<and> field \<in> set (m_fields model)
                 \<and> CHR ''.'' \<in> set (superGetNativeType e field)}"
    unfolding generateClasses_snd by (rule pass_packages_exact[OF c])
  show "\<exists>classes. res = join nl (generatePackageHeader e (snd (generateClasses e v)) # classes)"
    using t by blast
  show "\<exists>classes. res
              = join nl
                  ((generatePackageName e @ nl @ nl
                    @ join nl (map (\<lambda>pkg. if pkg \<noteq> [] then ''import '' @ pkg @ '';'' else [])
                        (additionalPackages (snd (generateClasses e v)) @ [[]]
                         @ CLASS_IMPORT_PACKAGES e)))
                   # classes)"
    using t unfolding generatePackageHeader_reads_the_set by blast
qed

text \<open>The example pass: both classes are generated, and the set ends with the one import.\<close>

lemma example_annotations:
  "generateModelAnnotations exampleCollaborators exampleComment
     = Inr [''SuppressWarnings(\"all\")'', ''ModelConfig(targetName = \"Comment\")'']"
  "generateModelAnnotations exampleCollaborators examplePost
     = Inr [''SuppressWarnings(\"all\")'', ''ModelConfig(targetName = \"Post\")'']"
  by (simp_all add: generateModelAnnotations_def modelAnnotation_def exampleComment_def examplePost_def)

lemma exampleComment_step_fields:
  "filter (\<lambda>field. f_name field \<notin> set READ_ONLY_FIELDS)
     (filter (\<lambda>field. \<not> f_isNullable field) (m_fields exampleComment)) \<noteq> []"
  by (simp add: exampleComment_def READ_ONLY_FIELDS_def)

lemma examplePost_step_fields_ne:
  "filter (\<lambda>field. f_name field \<notin> set READ_ONLY_FIELDS)
     (filter (\<lambda>field. \<not> f_isNullable field) (m_fields examplePost)) \<noteq> []"
  by (simp add: examplePost_def READ_ONLY_FIELDS_def)

lemma example_registrations:
  "fold (register exampleCollaborators) (m_fields exampleComment) [] = [''java.util.Date'']"
  "fold (register exampleCollaborators) (m_fields examplePost) [] = []"
  "fold (register exampleCollaborators) (m_fields examplePost) [''java.util.Date''] = [''java.util.Date'']"
  by (simp_all add: register_def setAdd_def exampleCollaborators_def exampleNativeType_def
      exampleComment_def examplePost_def)

lemma example_pass:
  "\<exists>b1 b2. generateClasses exampleCollaborators exampleVisitor
     = (Inr (join nl
          [generatePackageHeader exampleCollaborators
             (exampleVisitor\<lparr>additionalPackages := [''java.util.Date'']\<rparr>),
           blockString exampleCollaborators b1, blockString exampleCollaborators b2]),
        exampleVisitor\<lparr>additionalPackages := [''java.util.Date'']\<rparr>)"
proof -
  let ?v1 = "exampleVisitor\<lparr>additionalPackages := [''java.util.Date'']\<rparr>"
  have ap: "additionalPackages exampleVisitor = []"
    by (simp add: exampleVisitor_def newVisitor_def)
  obtain b1 where g1: "generateClass exampleCollaborators exampleComment exampleVisitor
      = (Inr (blockString exampleCollaborators b1), ?v1)"
    using generateClass_success[OF example_annotations(1) exampleComment_step_fields, of exampleVisitor]
    by (auto simp: ap example_registrations)
  obtain b2 where g2: "generateClass exampleCollaborators examplePost ?v1
      = (Inr (blockString exampleCollaborators b2), ?v1)"
    using generateClass_success[OF example_annotations(2) examplePost_step_fields_ne, of ?v1]
    by (auto simp: example_registrations)
  have sel: "getSelectedModels exampleVisitor = [(''Comment'', exampleComment), (''Post'', examplePost)]"
    by (simp add: getSelectedModels_def exampleVisitor_def newVisitor_def)
  have "generateClasses exampleCollaborators exampleVisitor
     = (Inr (join nl
          [generatePackageHeader exampleCollaborators ?v1,
           blockString exampleCollaborators b1, blockString exampleCollaborators b2]), ?v1)"
    by (simp add: generateClasses_def sel g1 g2 Let_def)
  then show ?thesis by blast
qed

theorem additional_packages_accumulate_witness:
  "(\<exists>classes. fst (generateClasses exampleCollaborators exampleVisitor)
       = Inr (join nl (generatePackageHeader exampleCollaborators
                (snd (generateClasses exampleCollaborators exampleVisitor)) # classes)))
   \<and> set (additionalPackages (snd (generateClasses exampleCollaborators exampleVisitor)))
       = {''java.util.Date''}
   \<and> generatePackageHeader exampleCollaborators
       (snd (generateClasses exampleCollaborators exampleVisitor))
       = ''package com.amplifyframework.datastore.generated.model;'' @ nl @ nl
         @ ''import java.util.Date;'' @ nl @ nl @ ''import java.util.UUID;''"
proof -
  obtain res where ok: "fst (generateClasses exampleCollaborators exampleVisitor) = Inr res"
    using example_pass by auto
  have sel: "getSelectedModels exampleVisitor = [(''Comment'', exampleComment), (''Post'', examplePost)]"
    by (simp add: getSelectedModels_def exampleVisitor_def newVisitor_def)
  have ap: "additionalPackages exampleVisitor = []"
    by (simp add: exampleVisitor_def newVisitor_def)
  have q: "{superGetNativeType exampleCollaborators field | field name model.
              (name, model) \<in> set (getSelectedModels exampleVisitor) \<and> field \<in> set (m_fields model)
              \<and> CHR ''.'' \<in> set (superGetNativeType exampleCollaborators field)}
      = {''java.util.Date''}"
  proof -
    have q1: "{superGetNativeType exampleCollaborators field | field.
              field \<in> set (m_fields exampleComment)
              \<and> CHR ''.'' \<in> set (superGetNativeType exampleCollaborators field)} = {''java.util.Date''}"
      using set_fold_register[of exampleCollaborators "m_fields exampleComment" "[]"]
      by (simp add: example_registrations)
    have q2: "{superGetNativeType exampleCollaborators field | field.
              field \<in> set (m_fields examplePost)
              \<and> CHR ''.'' \<in> set (superGetNativeType exampleCollaborators field)} = {}"
      using set_fold_register[of exampleCollaborators "m_fields examplePost" "[]"]
      by (simp add: example_registrations)
    show ?thesis
      unfolding sel qualified_Cons q1 q2 by simp
  qed
  from additional_packages_accumulate[of "[]" "\<lambda>n. True" exampleCollaborators undefined
      exampleVisitor exampleComment] ok
  have "set (additionalPackages (snd (generateClasses exampleCollaborators exampleVisitor)))
          = set (additionalPackages exampleVisitor)
            \<union> {superGetNativeType exampleCollaborators field | field name model.
                 (name, model) \<in> set (getSelectedModels exampleVisitor) \<and> field \<in> set (m_fields model)
                 \<and> CHR ''.'' \<in> set (superGetNativeType exampleCollaborators field)}
        \<and> (\<exists>classes. res
              = join nl (generatePackageHeader exampleCollaborators
                  (snd (generateClasses exampleCollaborators exampleVisitor)) # classes))"
    by blast
  then have main: "(\<exists>classes. fst (generateClasses exampleCollaborators exampleVisitor)
       = Inr (join nl (generatePackageHeader exampleCollaborators
                (snd (generateClasses exampleCollaborators exampleVisitor)) # classes)))
   \<and> set (additionalPackages (snd (generateClasses exampleCollaborators exampleVisitor)))
       = {''java.util.Date''}"
    unfolding q ap ok by simp
  have d: "additionalPackages (snd (generateClasses exampleCollaborators exampleVisitor))
      = [''java.util.Date'']"
    using example_pass by auto
  have h: "generatePackageHeader exampleCollaborators
       (snd (generateClasses exampleCollaborators exampleVisitor))
       = generatePackageName exampleCollaborators @ nl @ nl
         @ join nl (map (\<lambda>pkg. if pkg \<noteq> [] then ''import '' @ pkg @ '';'' else [])
             (additionalPackages (snd (generateClasses exampleCollaborators exampleVisitor)) @ [[]]
              @ CLASS_IMPORT_PACKAGES exampleCollaborators))"
    using additional_packages_accumulate[of "[]" "\<lambda>n. True" exampleCollaborators undefined
      "snd (generateClasses exampleCollaborators exampleVisitor)" exampleComment]
    by (elim conjE)
  have h': "generatePackageHeader exampleCollaborators
       (snd (generateClasses exampleCollaborators exampleVisitor))
       = ''package com.amplifyframework.datastore.generated.model;'' @ nl @ nl
         @ ''import java.util.Date;'' @ nl @ nl @ ''import java.util.UUID;''"
    unfolding h d by (simp add: generatePackageName_def exampleCollaborators_def)
  from main h' show ?thesis by (intro conjI) (elim conjE, assumption)+
qed

text \<open>
  Claim C9 as stated fails.  In a pass over \<^verbatim>\<open>Comment\<close> and \<^verbatim>\<open>Post\<close> the set is empty when
  the first class starts; after \<^verbatim>\<open>Comment\<close> it holds \<^verbatim>\<open>java.util.Date\<close>, and that is the set
  with which the class of \<^verbatim>\<open>Post\<close> is emitted, although \<^verbatim>\<open>Post\<close> on its own registers
  nothing; after the header has been rendered and the pass has returned, the set still
  holds it.
\<close>

theorem imports_stay_in_the_set:
  "additionalPackages exampleVisitor = []
   \<and> additionalPackages (snd (generateClass exampleCollaborators exampleComment exampleVisitor))
       = [''java.util.Date'']
   \<and> additionalPackages (snd (generateClass exampleCollaborators examplePost exampleVisitor)) = []
   \<and> additionalPackages
       (snd (generateClass exampleCollaborators examplePost
          (snd (generateClass exampleCollaborators exampleComment exampleVisitor))))
       = [''java.util.Date'']
   \<and> additionalPackages (snd (generateClasses exampleCollaborators exampleVisitor))
       = [''java.util.Date'']"
proof -
  have ap: "additionalPackages exampleVisitor = []"
    by (simp add: exampleVisitor_def newVisitor_def)
  have d: "additionalPackages (snd (generateClasses exampleCollaborators exampleVisitor))
       = [''java.util.Date'']"
    using example_pass by auto
  show ?thesis
    by (simp add: generateClass_snd example_annotations example_registrations ap d)
qed

subsection \<open>The emitted text and the program it prints\<close>










subsection \<open>What the emitted methods do\<close>




lemma idSetter_accepts:
  assumes "validUUID lib s"
  shows "callMethod lib [''id''] idSetterProgram this [VStr s] = (Returned VThis, this(''id'' := VStr s))"
  using assms
  by (simp add: callMethod_def idSetterProgram_def lookupVar_def staticCall_def)



subsection \<open>The build method\<close>



subsection \<open>The identity setter\<close>







end
